theory Spec2Isabelle
  imports Complex_Main "HOL-Library.While_Combinator"
begin

section \<open>Data model of \<^verbatim>\<open>src/app/page.tsx\<close>\<close>

text \<open>
  A JavaScript string is a sequence of UTF-16 code units; a code unit is modelled by its
  number. JavaScript numbers that carry lengths and widths in millimetres or pixels are
  modelled as real numbers (rounding of IEEE doubles is outside the model); the column
  count \<^verbatim>\<open>columns\<close> is such a number too: its caller clamps it to the range from 1 to
  12 without rounding it, so it may be fractional, and the code guards it with
  \<^verbatim>\<open>Math.max(columns, 1)\<close>.
\<close>

type_synonym jsstring = "nat list"

text \<open>
  The character class \<^verbatim>\<open>\s\<close> of an ECMAScript regular expression: the white space
  code points and the line terminators.
\<close>

definition isSpace :: "nat \<Rightarrow> bool" where
  "isSpace c = (c \<in> {0x09, 0x0A, 0x0B, 0x0C, 0x0D, 0x20, 0xA0, 0x1680, 0x2000, 0x2001,
     0x2002, 0x2003, 0x2004, 0x2005, 0x2006, 0x2007, 0x2008, 0x2009, 0x200A, 0x2028,
     0x2029, 0x202F, 0x205F, 0x3000, 0xFEFF})"

datatype tokenType = Newline | Space | Word

record token =
  ttype :: tokenType
  tvalue :: jsstring

record Column =
  lines :: "jsstring list"

record LayoutPage =
  pageColumns :: "Column list"

record MarginsPx =
  topPx :: real
  rightPx :: real
  bottomPx :: real
  leftPx :: real

record Margins =
  mTop :: real
  mRight :: real
  mBottom :: real
  mLeft :: real

record LayoutMetrics =
  pageWidthPx :: real
  pageHeightPx :: real
  marginsPx :: MarginsPx
  columnWidthsPx :: "real list"
  columnOffsetsPx :: "real list"
  columnHeightPx :: real
  gapPx :: real
  fontSizePx :: real
  lineHeightPx :: real
  customScale :: real

record LayoutConfig =
  configText :: jsstring
  columns :: real
  fontFamily :: jsstring
  fontSize :: real
  lineSpacing :: real

section \<open>Tokenizer\<close>

text \<open>
  \<^verbatim>\<open>text.replace(/\r\n/g, '\n')\<close>: every carriage return that is followed by a line feed
  is dropped, scanning left to right.
\<close>

fun normalizeNewlines :: "jsstring \<Rightarrow> jsstring" where
  "normalizeNewlines [] = []"
| "normalizeNewlines [c] = [c]"
| "normalizeNewlines (c # d # cs) =
     (if c = 0x0D \<and> d = 0x0A then 0x0A # normalizeNewlines cs
      else c # normalizeNewlines (d # cs))"

text \<open>
  The token pushed for one character of a white space chunk
  (the \<^verbatim>\<open>for (const char of chunk)\<close> loop).
\<close>

definition spaceToken :: "nat \<Rightarrow> token" where
  "spaceToken c =
     (if c = 0x0A then \<lparr>ttype = Newline, tvalue = [0x0A]\<rparr>
      else \<lparr>ttype = Space, tvalue = [c]\<rparr>)"

text \<open>
  The \<^verbatim>\<open>regex.exec\<close> loop over \<^verbatim>\<open>/(\n|\s+|[^\s]+)/g\<close>. The argument is the part of the
  normalized text from \<^verbatim>\<open>lastIndex\<close> on. Every character is white space or not, so a
  match always starts at \<^verbatim>\<open>lastIndex\<close>: a single line feed (first alternative), else
  the longest run of white space, else the longest run of other characters.
\<close>

function tokenizeFrom :: "jsstring \<Rightarrow> token list" where
  "tokenizeFrom [] = []"
| "tokenizeFrom (c # cs) =
     (if c = 0x0A then \<lparr>ttype = Newline, tvalue = [c]\<rparr> # tokenizeFrom cs
      else if isSpace c then
        map spaceToken (c # takeWhile isSpace cs) @ tokenizeFrom (dropWhile isSpace cs)
      else
        \<lparr>ttype = Word, tvalue = c # takeWhile (\<lambda>x. \<not> isSpace x) cs\<rparr>
          # tokenizeFrom (dropWhile (\<lambda>x. \<not> isSpace x) cs))"
  by pat_completeness auto
termination
  by (relation "measure length") (auto simp: length_dropWhile_le less_Suc_eq_le)

definition tokenize :: "jsstring \<Rightarrow> token list" where
  "tokenize text = tokenizeFrom (normalizeNewlines text)"

section \<open>Flow engine: the closures of \<^verbatim>\<open>layoutText\<close>\<close>

text \<open>
  The browser as \<^verbatim>\<open>layoutText\<close> sees it: whether \<^verbatim>\<open>window\<close> is defined, and the 2D
  context \<^verbatim>\<open>canvas.getContext('2d')\<close> returns (\<open>None\<close> for \<^verbatim>\<open>null\<close>). A context is its
  \<^verbatim>\<open>measureText(value).width\<close>, a function of the font size and family that
  \<^verbatim>\<open>ctx.font\<close> is set from and of the measured string.
\<close>

record Browser =
  windowDefined :: bool
  context2d :: "(real \<Rightarrow> jsstring \<Rightarrow> jsstring \<Rightarrow> real) option"

text \<open>
  The variables the closures share (\<^verbatim>\<open>let\<close> bindings of \<^verbatim>\<open>layoutText\<close>). The closure
  \<^verbatim>\<open>measure\<close> is the parameter \<open>measureWidth\<close> of the functions below; \<^verbatim>\<open>metrics\<close> and
  \<^verbatim>\<open>columnCount\<close> are parameters too.
\<close>

record FlowState =
  pages :: "LayoutPage list"
  currentPage :: LayoutPage
  currentColumnLines :: "jsstring list"
  cursorY :: real
  currentLine :: jsstring
  currentLineWidth :: real

text \<open>
  \<^verbatim>\<open>Array.from({ length: columns }, () => ({ lines: [] }))\<close>: the length is truncated
  to a whole number, and a length that is zero or negative gives the empty array.
\<close>

definition createEmptyPage :: "real \<Rightarrow> LayoutPage" where
  "createEmptyPage n = \<lparr>pageColumns = replicate (nat \<lfloor>n\<rfloor>) \<lparr>lines = []\<rparr>\<rparr>"

text \<open>
  \<^verbatim>\<open>getColumnWidth\<close>. The width list is not empty where the closure exists
  (\<^verbatim>\<open>layoutText\<close> returns before when it is), so the fallback is its last element.
\<close>

definition getColumnWidth :: "real list \<Rightarrow> FlowState \<Rightarrow> real" where
  "getColumnWidth columnWidths st =
     (let idx = length (pageColumns (currentPage st)) in
      if idx < length columnWidths then columnWidths ! idx else last columnWidths)"

definition finishColumn :: "real \<Rightarrow> FlowState \<Rightarrow> FlowState" where
  "finishColumn columnCount st =
     (let cols = pageColumns (currentPage st) @ [\<lparr>lines = currentColumnLines st\<rparr>] in
      if real (length cols) = columnCount
      then st\<lparr>pages := pages st @ [\<lparr>pageColumns = cols\<rparr>],
              currentPage := \<lparr>pageColumns = []\<rparr>,
              currentColumnLines := [], cursorY := 0\<rparr>
      else st\<lparr>currentPage := \<lparr>pageColumns = cols\<rparr>,
              currentColumnLines := [], cursorY := 0\<rparr>)"

definition ensureColumnSpaceForNextLine :: "LayoutMetrics \<Rightarrow> real \<Rightarrow> FlowState \<Rightarrow> FlowState" where
  "ensureColumnSpaceForNextLine metrics columnCount st =
     (if cursorY st + lineHeightPx metrics \<le> columnHeightPx metrics + 0.1 then st
      else finishColumn columnCount st)"

text \<open>\<^verbatim>\<open>rawLine.replace(/\s+$/u, '')\<close>: the trailing run of white space is removed.\<close>

definition trimEnd :: "jsstring \<Rightarrow> jsstring" where
  "trimEnd rawLine = rev (dropWhile isSpace (rev rawLine))"

definition commitLine :: "LayoutMetrics \<Rightarrow> real \<Rightarrow> jsstring \<Rightarrow> FlowState \<Rightarrow> FlowState" where
  "commitLine metrics columnCount rawLine st =
     (let trimmed = trimEnd rawLine;
          st1 = ensureColumnSpaceForNextLine metrics columnCount st in
      st1\<lparr>currentColumnLines :=
             currentColumnLines st1 @ [if trimmed = [] then [0xA0] else trimmed],
           cursorY := cursorY st1 + lineHeightPx metrics,
           currentLine := [], currentLineWidth := 0\<rparr>)"

text \<open>
  The inner loop of \<^verbatim>\<open>splitLongWord\<close>: a binary search over \<^verbatim>\<open>(low, high, best)\<close> for
  the longest prefix of \<^verbatim>\<open>remaining\<close> that measures at most the column width plus 0.1.
  The three variables are integers: \<^verbatim>\<open>high = mid - 1\<close> may reach 0.
\<close>

definition searchBody ::
  "(jsstring \<Rightarrow> real) \<Rightarrow> real \<Rightarrow> jsstring \<Rightarrow> int \<times> int \<times> int \<Rightarrow> int \<times> int \<times> int" where
  "searchBody measureWidth columnWidth remaining s =
     (case s of (low, high, best) \<Rightarrow>
        let mid = (low + high) div 2;
            candidate = take (nat mid) remaining;
            width = measureWidth candidate
        in if width \<le> columnWidth + 0.1 then (mid + 1, high, mid)
           else (low, mid - 1, best))"

function searchLoop ::
  "(jsstring \<Rightarrow> real) \<Rightarrow> real \<Rightarrow> jsstring \<Rightarrow> int \<times> int \<times> int \<Rightarrow> int" where
  "searchLoop measureWidth columnWidth remaining (low, high, best) =
     (if low \<le> high
      then searchLoop measureWidth columnWidth remaining
             (searchBody measureWidth columnWidth remaining (low, high, best))
      else best)"
  by pat_completeness auto
termination
  by (relation "measure (\<lambda>(m, w, r, low, high, best). nat (high + 1 - low))")
     (auto simp: searchBody_def Let_def)

declare searchLoop.simps [simp del]

text \<open>
  The prefix length one iteration of \<^verbatim>\<open>splitLongWord\<close> takes: the search result, or 1
  when no prefix fits (\<^verbatim>\<open>if (best === 0) best = 1\<close>).
\<close>

definition bestPrefix :: "(jsstring \<Rightarrow> real) \<Rightarrow> real \<Rightarrow> jsstring \<Rightarrow> int" where
  "bestPrefix measureWidth columnWidth remaining =
     (let best = searchLoop measureWidth columnWidth remaining (1, int (length remaining), 0) in
      if best = 0 then 1 else best)"

text \<open>
  One iteration of the outer loop of \<^verbatim>\<open>splitLongWord\<close>, on the state and
  \<^verbatim>\<open>remaining\<close>. The column width is read before the column space is ensured, as in
  the source.
\<close>

definition splitBody ::
  "(jsstring \<Rightarrow> real) \<Rightarrow> LayoutMetrics \<Rightarrow> real \<Rightarrow> FlowState \<times> jsstring \<Rightarrow> FlowState \<times> jsstring" where
  "splitBody measureWidth metrics columnCount s =
     (case s of (st, remaining) \<Rightarrow>
        let columnWidth = getColumnWidth (columnWidthsPx metrics) st;
            st1 = ensureColumnSpaceForNextLine metrics columnCount st;
            best = bestPrefix measureWidth columnWidth remaining;
            segment = take (nat best) remaining
        in if best = int (length remaining)
           then (st1\<lparr>currentLine := segment, currentLineWidth := measureWidth segment\<rparr>, [])
           else (commitLine metrics columnCount segment st1, drop (nat best) remaining))"

lemma searchLoop_cases:
  "searchLoop mw cw r (low, high, best) = best \<or>
   (low \<le> searchLoop mw cw r (low, high, best) \<and>
    searchLoop mw cw r (low, high, best) \<le> high \<and>
    mw (take (nat (searchLoop mw cw r (low, high, best))) r) \<le> cw + 0.1)"
proof (induction mw cw r "(low, high, best)" arbitrary: low high best rule: searchLoop.induct)
  case (1 mw cw r low high best)
  show ?case
  proof (cases "low \<le> high")
    case False
    then show ?thesis by (simp add: searchLoop.simps)
  next
    case True
    define mid where "mid = (low + high) div 2"
    have mid: "low \<le> mid" "mid \<le> high" using True by (auto simp: mid_def)
    show ?thesis
    proof (cases "mw (take (nat mid) r) \<le> cw + 0.1")
      case fits: True
      have body: "searchBody mw cw r (low, high, best) = (mid + 1, high, mid)"
        using fits by (simp add: searchBody_def Let_def mid_def)
      have eq: "searchLoop mw cw r (low, high, best) = searchLoop mw cw r (mid + 1, high, mid)"
        using True body by (simp add: searchLoop.simps[of _ _ _ low])
      from "1.hyps"[OF True body] show ?thesis
        unfolding eq using mid fits by auto
    next
      case nofit: False
      have body: "searchBody mw cw r (low, high, best) = (low, mid - 1, best)"
        using nofit by (simp add: searchBody_def Let_def mid_def)
      have eq: "searchLoop mw cw r (low, high, best) = searchLoop mw cw r (low, mid - 1, best)"
        using True body by (simp add: searchLoop.simps[of _ _ _ low])
      from "1.hyps"[OF True body] show ?thesis
        unfolding eq using mid by auto
    qed
  qed
qed

lemma bestPrefix_bounds:
  assumes "remaining \<noteq> []"
  shows "1 \<le> bestPrefix mw cw remaining \<and> bestPrefix mw cw remaining \<le> int (length remaining)"
proof -
  have "1 \<le> int (length remaining)" using assms by (cases remaining) auto
  then show ?thesis
    using searchLoop_cases[of mw cw remaining 1 "int (length remaining)" 0]
    by (auto simp: bestPrefix_def Let_def)
qed

lemma bestPrefix_fits:
  "bestPrefix mw cw remaining = 1 \<or>
   mw (take (nat (bestPrefix mw cw remaining)) remaining) \<le> cw + 0.1"
  using searchLoop_cases[of mw cw remaining 1 "int (length remaining)" 0]
  by (auto simp: bestPrefix_def Let_def)

lemma splitBody_shrinks:
  assumes "remaining \<noteq> []"
  shows "length (snd (splitBody mw m cc (st, remaining))) < length remaining"
proof -
  have len: "0 < length remaining" using assms by simp
  have "0 < nat (bestPrefix mw cw remaining)" for cw
    using bestPrefix_bounds[OF assms, of mw cw] by simp
  then show ?thesis
    using len by (simp add: splitBody_def Let_def)
qed

text \<open>
  \<^verbatim>\<open>splitLongWord\<close>: the loop \<^verbatim>\<open>while (remaining.length > 0)\<close>, started with
  \<^verbatim>\<open>remaining = word\<close>.
\<close>

function splitLongWord ::
  "(jsstring \<Rightarrow> real) \<Rightarrow> LayoutMetrics \<Rightarrow> real \<Rightarrow> FlowState \<Rightarrow> jsstring \<Rightarrow> FlowState" where
  "splitLongWord measureWidth metrics columnCount st remaining =
     (if length remaining > 0
      then (case splitBody measureWidth metrics columnCount (st, remaining) of
              (st', remaining') \<Rightarrow> splitLongWord measureWidth metrics columnCount st' remaining')
      else st)"
  by pat_completeness auto
termination
proof (relation "measure (\<lambda>(mw, m, cc, st, remaining). length remaining)")
  show "wf (measure (\<lambda>(mw, m, cc, st, remaining). length (remaining :: jsstring)))"
    by simp
next
  fix mw :: "jsstring \<Rightarrow> real" and m :: LayoutMetrics and cc :: real
    and st st' :: FlowState and remaining remaining' :: jsstring
  assume "0 < length remaining" and "(st', remaining') = splitBody mw m cc (st, remaining)"
  then have "length remaining' < length remaining"
    using splitBody_shrinks[of remaining mw m cc st] by (metis length_greater_0_conv snd_conv)
  then show "((mw, m, cc, st', remaining'), (mw, m, cc, st, remaining))
      \<in> measure (\<lambda>(mw, m, cc, st, remaining). length remaining)"
    by simp
qed

declare splitLongWord.simps [simp del]

text \<open>The body of the loop \<^verbatim>\<open>for (const token of tokens)\<close>.\<close>

definition processToken ::
  "(jsstring \<Rightarrow> real) \<Rightarrow> LayoutMetrics \<Rightarrow> real \<Rightarrow> FlowState \<Rightarrow> token \<Rightarrow> FlowState" where
  "processToken measureWidth metrics columnCount st tok =
     (case ttype tok of
        Newline \<Rightarrow>
          (if currentLine st \<noteq> [] then commitLine metrics columnCount (currentLine st) st
           else commitLine metrics columnCount [] st)
      | Space \<Rightarrow>
          (if currentLine st = [] then st
           else
             let columnWidth = getColumnWidth (columnWidthsPx metrics) st;
                 width = measureWidth (tvalue tok)
             in if currentLineWidth st + width \<le> columnWidth + 0.1
                then st\<lparr>currentLine := currentLine st @ tvalue tok,
                        currentLineWidth := currentLineWidth st + width\<rparr>
                else commitLine metrics columnCount (currentLine st) st)
      | Word \<Rightarrow>
          (let columnWidth = getColumnWidth (columnWidthsPx metrics) st;
               width = measureWidth (tvalue tok);
               st1 = (if currentLineWidth st > 0 \<and> currentLineWidth st + width > columnWidth + 0.1
                      then commitLine metrics columnCount (currentLine st) st else st)
           in if width \<le> columnWidth + 0.1
              then
                let st2 = (if currentLine st1 = []
                           then ensureColumnSpaceForNextLine metrics columnCount st1 else st1)
                in st2\<lparr>currentLine := currentLine st2 @ tvalue tok,
                        currentLineWidth := currentLineWidth st2 + width\<rparr>
              else
                let st2 = (if currentLine st1 \<noteq> []
                           then commitLine metrics columnCount (currentLine st1) st1 else st1)
                in splitLongWord measureWidth metrics columnCount st2 (tvalue tok)))"

lemma length_less_ceiling: "real n < c \<Longrightarrow> n < nat \<lceil>c\<rceil>"
proof -
  assume "real n < c"
  then have "int n < \<lceil>c\<rceil>" by (simp add: less_ceiling_iff)
  then show ?thesis by (simp add: zless_nat_eq_int_zless)
qed

text \<open>
  \<^verbatim>\<open>while (currentPage.columns.length < columnCount) currentPage.columns.push({ lines: [] })\<close>
\<close>

function padColumns :: "real \<Rightarrow> Column list \<Rightarrow> Column list" where
  "padColumns columnCount cols =
     (if real (length cols) < columnCount then padColumns columnCount (cols @ [\<lparr>lines = []\<rparr>])
      else cols)"
  by pat_completeness auto
termination
  by (relation "measure (\<lambda>(columnCount, cols). nat \<lceil>columnCount\<rceil> - length cols)")
     (auto dest: length_less_ceiling intro!: diff_less_mono2)

declare padColumns.simps [simp del]

text \<open>The statements of \<^verbatim>\<open>layoutText\<close> after the token loop, up to the returned pages.\<close>

definition finishLayout :: "LayoutMetrics \<Rightarrow> real \<Rightarrow> FlowState \<Rightarrow> LayoutPage list" where
  "finishLayout metrics columnCount st =
     (let st1 = (if currentLine st \<noteq> [] then commitLine metrics columnCount (currentLine st) st
                 else st);
          pages1 =
            (if length (currentColumnLines st1) > 0 \<or> length (pageColumns (currentPage st1)) > 0
             then pages st1 @
               [\<lparr>pageColumns = padColumns columnCount
                   (pageColumns (currentPage st1) @ [\<lparr>lines = currentColumnLines st1\<rparr>])\<rparr>]
             else pages st1)
      in if length pages1 = 0 then [createEmptyPage columnCount] else pages1)"

definition initialState :: FlowState where
  "initialState = \<lparr>pages = [], currentPage = \<lparr>pageColumns = []\<rparr>, currentColumnLines = [],
     cursorY = 0, currentLine = [], currentLineWidth = 0\<rparr>"

text \<open>The token loop and the final statements, for a given \<^verbatim>\<open>measure\<close>.\<close>

definition flowTokens ::
  "(jsstring \<Rightarrow> real) \<Rightarrow> LayoutMetrics \<Rightarrow> real \<Rightarrow> token list \<Rightarrow> LayoutPage list" where
  "flowTokens measureWidth metrics columnCount tokens =
     finishLayout metrics columnCount
       (foldl (processToken measureWidth metrics columnCount) initialState tokens)"

definition layoutText :: "Browser \<Rightarrow> LayoutConfig \<Rightarrow> LayoutMetrics \<Rightarrow> LayoutPage list" where
  "layoutText browser config metrics =
     (if \<not> windowDefined browser then [createEmptyPage (columns config)]
      else
        let columnWidths = columnWidthsPx metrics;
            columnCount = max (columns config) 1
        in if length columnWidths = 0 then [createEmptyPage columnCount]
           else
             (case context2d browser of
                None \<Rightarrow> [createEmptyPage columnCount]
              | Some measureText \<Rightarrow>
                  flowTokens (measureText (fontSizePx metrics) (fontFamily config))
                    metrics columnCount (tokenize (configText config))))"

section \<open>Metrics: \<^verbatim>\<open>computeMetrics\<close>\<close>

datatype ColumnMode = Equal | Custom

definition PAGE_WIDTH_MM :: real where
  "PAGE_WIDTH_MM = 210"

definition PAGE_HEIGHT_MM :: real where
  "PAGE_HEIGHT_MM = 297"

definition mmToPx :: "real \<Rightarrow> real" where
  "mmToPx mm = (mm * 96) / 25.4"

definition ptToPx :: "real \<Rightarrow> real" where
  "ptToPx pt = (pt * 96) / 72"

text \<open>The local constants \<^verbatim>\<open>contentWidthPx\<close>, \<^verbatim>\<open>availableWidthPx\<close> and \<^verbatim>\<open>availableWidthMm\<close>.\<close>

definition contentWidthPx :: "Margins \<Rightarrow> real" where
  "contentWidthPx margins =
     max (mmToPx PAGE_WIDTH_MM - mmToPx (mLeft margins) - mmToPx (mRight margins)) 1"

definition availableWidthPx :: "real \<Rightarrow> real \<Rightarrow> Margins \<Rightarrow> real" where
  "availableWidthPx cols gapMm margins =
     max (contentWidthPx margins - mmToPx gapMm * max (cols - 1) 0) 1"

definition availableWidthMm :: "real \<Rightarrow> real \<Rightarrow> Margins \<Rightarrow> real" where
  "availableWidthMm cols gapMm margins =
     max (PAGE_WIDTH_MM - mLeft margins - mRight margins
            - gapMm * max (cols - 1) 0) 1"

text \<open>
  \<^verbatim>\<open>columnWidthsMm.slice(0, columnCount).map((value) => Math.max(value, 0))\<close> and its
  \<^verbatim>\<open>reduce\<close> sum; \<^verbatim>\<open>slice\<close> truncates a fractional end index.
\<close>

definition requestedWidths :: "real \<Rightarrow> real list \<Rightarrow> real list" where
  "requestedWidths cols columnWidthsMm =
     map (\<lambda>v. max v 0) (take (nat \<lfloor>max cols 1\<rfloor>) columnWidthsMm)"

definition requestedSum :: "real \<Rightarrow> real list \<Rightarrow> real" where
  "requestedSum cols columnWidthsMm =
     foldl (\<lambda>acc v. acc + v) 0 (requestedWidths cols columnWidthsMm)"

text \<open>
  The pair \<^verbatim>\<open>(columnWidthsPx, scale)\<close> that the branches on \<^verbatim>\<open>mode\<close> assign.
  \<^verbatim>\<open>Array.from({ length: columnCount }, ...)\<close> truncates a fractional count, while the
  width is divided by the count as it is.
\<close>

definition resolveWidths ::
  "real \<Rightarrow> ColumnMode \<Rightarrow> real list \<Rightarrow> real \<Rightarrow> Margins \<Rightarrow> real list \<times> real" where
  "resolveWidths cols mode columnWidthsMm gapMm margins =
     (let columnCount = max cols 1 in
      if mode = Equal then
        (let width = availableWidthPx cols gapMm margins / columnCount in
         (replicate (nat \<lfloor>columnCount\<rfloor>) width, 1))
      else
        (let requested = requestedWidths cols columnWidthsMm;
             sum = requestedSum cols columnWidthsMm
         in if sum \<le> 0 then
              (let fallback = availableWidthPx cols gapMm margins / columnCount in
               (replicate (nat \<lfloor>columnCount\<rfloor>) fallback, 1))
            else
              (let scale = availableWidthMm cols gapMm margins / sum in
               (map (\<lambda>v. mmToPx (v * scale)) requested, scale))))"

text \<open>
  The \<^verbatim>\<open>forEach\<close> that fills \<^verbatim>\<open>columnOffsetsPx\<close>: the gap is added after every width but
  the last.
\<close>

fun columnOffsets :: "real \<Rightarrow> real \<Rightarrow> real list \<Rightarrow> real list" where
  "columnOffsets gap offset [] = []"
| "columnOffsets gap offset (width # rest) =
     offset # columnOffsets gap (offset + width + (if rest \<noteq> [] then gap else 0)) rest"

definition computeMetrics ::
  "real \<Rightarrow> ColumnMode \<Rightarrow> real list \<Rightarrow> real \<Rightarrow> Margins \<Rightarrow> real \<Rightarrow> real \<Rightarrow> LayoutMetrics" where
  "computeMetrics cols mode columnWidthsMm gapMm margins fontSizePt spacing =
     (let pageWidth = mmToPx PAGE_WIDTH_MM;
          pageHeight = mmToPx PAGE_HEIGHT_MM;
          mPx = \<lparr>topPx = mmToPx (mTop margins), rightPx = mmToPx (mRight margins),
                 bottomPx = mmToPx (mBottom margins), leftPx = mmToPx (mLeft margins)\<rparr>;
          gap = mmToPx gapMm;
          resolved = resolveWidths cols mode columnWidthsMm gapMm margins;
          widths = fst resolved;
          fontPx = ptToPx fontSizePt
      in \<lparr>pageWidthPx = pageWidth,
          pageHeightPx = pageHeight,
          marginsPx = mPx,
          columnWidthsPx = widths,
          columnOffsetsPx = columnOffsets gap 0 widths,
          columnHeightPx = max (pageHeight - topPx mPx - bottomPx mPx) 16,
          gapPx = gap,
          fontSizePx = fontPx,
          lineHeightPx = fontPx * spacing,
          customScale = snd resolved\<rparr>)"

section \<open>Example inputs\<close>

text \<open>
  A measurement backend in which every code unit is 10 pixels wide, whatever the font,
  and metrics given by their column widths, column height and line height (the other
  fields do not enter \<^verbatim>\<open>layoutText\<close>).
\<close>

definition monoWidth :: "jsstring \<Rightarrow> real" where
  "monoWidth s = 10 * real (length s)"

definition monoBrowser :: Browser where
  "monoBrowser = \<lparr>windowDefined = True, context2d = Some (\<lambda>size family. monoWidth)\<rparr>"

definition flowMetrics :: "real list \<Rightarrow> real \<Rightarrow> real \<Rightarrow> LayoutMetrics" where
  "flowMetrics widths height lineHeight =
     \<lparr>pageWidthPx = 0, pageHeightPx = 0,
      marginsPx = \<lparr>topPx = 0, rightPx = 0, bottomPx = 0, leftPx = 0\<rparr>,
      columnWidthsPx = widths, columnOffsetsPx = [], columnHeightPx = height, gapPx = 0,
      fontSizePx = 0, lineHeightPx = lineHeight, customScale = 1\<rparr>"

definition textConfig :: "jsstring \<Rightarrow> real \<Rightarrow> LayoutConfig" where
  "textConfig s n = \<lparr>configText = s, columns = n, fontFamily = [], fontSize = 12, lineSpacing = 1\<rparr>"

text \<open>Margins of 10 millimetres on every side.\<close>

definition tenMargins :: Margins where
  "tenMargins = \<lparr>mTop = 10, mRight = 10, mBottom = 10, mLeft = 10\<rparr>"

section \<open>Invariants of the flow\<close>

text \<open>
  For a whole number \<open>cc\<close>: every closed page has \<open>cc\<close> columns and the page being
  filled has fewer.
\<close>

definition pagesFull :: "real \<Rightarrow> FlowState \<Rightarrow> bool" where
  "pagesFull cc st =
     (cc \<in> \<int>
      \<and> list_all (\<lambda>p. real (length (pageColumns p)) = cc) (pages st)
      \<and> real (length (pageColumns (currentPage st))) < cc)"

text \<open>
  No column holds more lines than its height allows, and \<^verbatim>\<open>cursorY\<close> is the height of
  the lines of the column being filled.
\<close>

definition columnFits :: "LayoutMetrics \<Rightarrow> Column \<Rightarrow> bool" where
  "columnFits m c = (real (length (lines c)) * lineHeightPx m \<le> columnHeightPx m + 0.1)"

definition noOverflow :: "LayoutMetrics \<Rightarrow> FlowState \<Rightarrow> bool" where
  "noOverflow m st =
     (list_all (\<lambda>p. list_all (columnFits m) (pageColumns p)) (pages st)
      \<and> list_all (columnFits m) (pageColumns (currentPage st))
      \<and> cursorY st = real (length (currentColumnLines st)) * lineHeightPx m
      \<and> cursorY st \<le> columnHeightPx m + 0.1)"

text \<open>
  The lines committed so far, in reading order: those of the closed pages, of the closed
  columns of the page being filled, and of the column being filled.
\<close>

definition pageLines :: "LayoutPage \<Rightarrow> jsstring list" where
  "pageLines p = concat (map lines (pageColumns p))"

definition committedLines :: "FlowState \<Rightarrow> jsstring list" where
  "committedLines st =
     concat (map pageLines (pages st)) @ pageLines (currentPage st) @ currentColumnLines st"

section \<open>Properties of the tokenizer\<close>

lemma tvalue_spaceToken: "tvalue (spaceToken c) = [c]"
  by (simp add: spaceToken_def)

lemma concat_spaceTokens: "concat (map (tvalue \<circ> spaceToken) cs) = cs"
  by (induction cs) (simp_all add: tvalue_spaceToken)

lemma concat_tokenizeFrom: "concat (map tvalue (tokenizeFrom s)) = s"
proof (induction s rule: tokenizeFrom.induct)
  case 1
  show ?case by simp
next
  case (2 c cs)
  show ?case
  proof (cases "c = 0x0A")
    case True
    with "2.IH"(1) show ?thesis by simp
  next
    case nl: False
    show ?thesis
    proof (cases "isSpace c")
      case True
      have "concat (map tvalue (tokenizeFrom (c # cs)))
          = c # takeWhile isSpace cs @ dropWhile isSpace cs"
        using nl True "2.IH"(2) by (simp add: concat_spaceTokens tvalue_spaceToken)
      then show ?thesis by simp
    next
      case False
      have "concat (map tvalue (tokenizeFrom (c # cs)))
          = c # takeWhile (\<lambda>x. \<not> isSpace x) cs @ dropWhile (\<lambda>x. \<not> isSpace x) cs"
        using nl False "2.IH"(3) by simp
      then show ?thesis by simp
    qed
  qed
qed

text \<open>
  C2. Concatenating the values of all tokens returned by \<^verbatim>\<open>tokenize\<close>, in order, gives
  the input text with every CR LF pair replaced by LF: no character is dropped or
  duplicated.
\<close>

theorem tokenize_roundtrip:
  "concat (map tvalue (tokenize text)) = normalizeNewlines text"
  by (simp add: tokenize_def concat_tokenizeFrom)

section \<open>Page and column accounting\<close>

lemma next_column_below:
  assumes "cc \<in> \<int>" and "real n < cc" and "real (Suc n) \<noteq> cc"
  shows "real (Suc n) < cc"
proof -
  from assms(1) obtain z where z: "cc = of_int z" by (auto elim: Ints_cases)
  from assms(2) have "int n < z" unfolding z by linarith
  moreover from assms(3) have "int n + 1 \<noteq> z" unfolding z by auto
  ultimately have "int n + 1 < z" by linarith
  then show ?thesis unfolding z by linarith
qed

lemma pagesFull_finishColumn: "pagesFull cc st \<Longrightarrow> pagesFull cc (finishColumn cc st)"
proof -
  assume p: "pagesFull cc st"
  let ?n = "length (pageColumns (currentPage st))"
  show ?thesis
  proof (cases "real (Suc ?n) = cc")
    case True
    then have "0 < cc" by linarith
    with p True show ?thesis by (simp add: pagesFull_def finishColumn_def Let_def)
  next
    case False
    with p have "real (Suc ?n) < cc" by (intro next_column_below) (simp_all add: pagesFull_def)
    with p False show ?thesis by (simp add: pagesFull_def finishColumn_def Let_def)
  qed
qed

lemma pagesFull_ensure: "pagesFull cc st \<Longrightarrow> pagesFull cc (ensureColumnSpaceForNextLine m cc st)"
  by (simp add: ensureColumnSpaceForNextLine_def pagesFull_finishColumn)

lemma pagesFull_commitLine: "pagesFull cc st \<Longrightarrow> pagesFull cc (commitLine m cc l st)"
  using pagesFull_ensure[of cc st m] by (simp add: commitLine_def Let_def pagesFull_def)

lemma pagesFull_line [simp]:
  "pagesFull cc (st\<lparr>currentLine := x, currentLineWidth := y\<rparr>) = pagesFull cc st"
  by (simp add: pagesFull_def)

lemma pagesFull_splitBody:
  "pagesFull cc st \<Longrightarrow> pagesFull cc (fst (splitBody mw m cc (st, r)))"
  by (simp add: splitBody_def Let_def pagesFull_ensure pagesFull_commitLine)

lemma splitLongWord_invariant:
  assumes "P st"
    and step: "\<And>s r. P s \<Longrightarrow> r \<noteq> [] \<Longrightarrow> P (fst (splitBody mw m cc (s, r)))"
  shows "P (splitLongWord mw m cc st remaining)"
  using assms(1)
proof (induction "length remaining" arbitrary: st remaining rule: less_induct)
  case less
  show ?case
  proof (cases "remaining = []")
    case True
    then show ?thesis using less.prems by (simp add: splitLongWord.simps)
  next
    case False
    obtain st' r' where b: "splitBody mw m cc (st, remaining) = (st', r')"
      by (cases "splitBody mw m cc (st, remaining)")
    have "P st'" using step[OF less.prems False] b by simp
    moreover have "length r' < length remaining"
      using splitBody_shrinks[OF False, of mw m cc st] b by simp
    ultimately have "P (splitLongWord mw m cc st' r')" by (rule less.hyps[rotated])
    then show ?thesis
      using False b by (simp add: splitLongWord.simps[of mw m cc st remaining])
  qed
qed

lemma pagesFull_splitLongWord:
  "pagesFull cc st \<Longrightarrow> pagesFull cc (splitLongWord mw m cc st r)"
  by (rule splitLongWord_invariant) (simp_all add: pagesFull_splitBody)

lemma pagesFull_processToken:
  "pagesFull cc st \<Longrightarrow> pagesFull cc (processToken mw m cc st tok)"
  by (cases "ttype tok")
     (simp_all add: processToken_def Let_def pagesFull_commitLine pagesFull_ensure
        pagesFull_splitLongWord)

lemma pagesFull_foldl:
  "pagesFull cc st \<Longrightarrow> pagesFull cc (foldl (processToken mw m cc) st toks)"
  by (induction toks arbitrary: st) (simp_all add: pagesFull_processToken)

lemma length_padColumns:
  "cc \<in> \<int> \<Longrightarrow> real (length (padColumns cc cols)) = max (real (length cols)) cc"
proof (induction cc cols rule: padColumns.induct)
  case (1 cc cols)
  show ?case
  proof (cases "real (length cols) < cc")
    case True
    have "real (Suc (length cols)) \<le> cc"
      using next_column_below[OF "1.prems" True] by (cases "real (Suc (length cols)) = cc") simp_all
    with "1.IH"[OF True "1.prems"] True show ?thesis
      by (simp add: padColumns.simps[of cc cols])
  next
    case False
    then show ?thesis by (simp add: padColumns.simps[of cc cols])
  qed
qed

lemma length_createEmptyPage:
  "n \<in> \<int> \<Longrightarrow> real (length (pageColumns (createEmptyPage n))) = max n 0"
  by (auto simp: createEmptyPage_def elim!: Ints_cases)

lemma finishLayout_columns:
  assumes "pagesFull cc st" and "1 \<le> cc"
  shows "list_all (\<lambda>p. real (length (pageColumns p)) = cc) (finishLayout m cc st)"
proof -
  define st1 where "st1 = (if currentLine st \<noteq> [] then commitLine m cc (currentLine st) st else st)"
  have p: "pagesFull cc st1" using assms(1) by (simp add: st1_def pagesFull_commitLine)
  have z: "cc \<in> \<int>" using p by (simp add: pagesFull_def)
  have "real (Suc (length (pageColumns (currentPage st1)))) \<le> cc"
    using p next_column_below[OF z, of "length (pageColumns (currentPage st1))"]
    by (cases "real (Suc (length (pageColumns (currentPage st1)))) = cc")
       (simp_all add: pagesFull_def)
  then have "real (length (padColumns cc
      (pageColumns (currentPage st1) @ [\<lparr>lines = currentColumnLines st1\<rparr>]))) = cc"
    by (simp add: length_padColumns[OF z])
  then show ?thesis
    using p assms(2) unfolding finishLayout_def st1_def[symmetric] Let_def
    by (simp add: pagesFull_def length_createEmptyPage[OF z])
qed

lemma pagesFull_initial: "cc \<in> \<int> \<Longrightarrow> 1 \<le> cc \<Longrightarrow> pagesFull cc initialState"
  by (simp add: pagesFull_def initialState_def)

section \<open>Evaluation on concrete inputs\<close>

lemma flowMetrics_fields [simp]:
  "columnWidthsPx (flowMetrics widths height lineHeight) = widths"
  "columnHeightPx (flowMetrics widths height lineHeight) = height"
  "lineHeightPx (flowMetrics widths height lineHeight) = lineHeight"
  by (simp_all add: flowMetrics_def)

lemma textConfig_fields [simp]:
  "configText (textConfig s n) = s"
  "columns (textConfig s n) = n"
  by (simp_all add: textConfig_def)

lemma monoBrowser_window [simp]: "windowDefined monoBrowser"
  by (simp add: monoBrowser_def)

lemmas step_defs =
  processToken_def commitLine_def ensureColumnSpaceForNextLine_def finishColumn_def
  getColumnWidth_def splitLongWord.simps splitBody_def bestPrefix_def searchLoop.simps
  searchBody_def trimEnd_def isSpace_def monoWidth_def initialState_def Let_def

lemmas finish_defs =
  finishLayout_def commitLine_def ensureColumnSpaceForNextLine_def finishColumn_def
  padColumns.simps trimEnd_def isSpace_def createEmptyPage_def Let_def

lemmas layout_defs =
  layoutText_def flowTokens_def monoBrowser_def textConfig_def Let_def

lemma exampleA_tokens:
  "tokenize [97, 97, 97, 97, 32, 98, 98, 98, 98, 32, 99, 99, 99, 99]
   = [\<lparr>ttype = Word, tvalue = [97, 97, 97, 97]\<rparr>, \<lparr>ttype = Space, tvalue = [32]\<rparr>,
      \<lparr>ttype = Word, tvalue = [98, 98, 98, 98]\<rparr>, \<lparr>ttype = Space, tvalue = [32]\<rparr>,
      \<lparr>ttype = Word, tvalue = [99, 99, 99, 99]\<rparr>]"
  by (simp add: tokenize_def isSpace_def spaceToken_def)

lemma exampleA_flow:
  "foldl (processToken monoWidth (flowMetrics [90, 90] 10 10) 2) initialState
     [\<lparr>ttype = Word, tvalue = [97, 97, 97, 97]\<rparr>, \<lparr>ttype = Space, tvalue = [32]\<rparr>,
      \<lparr>ttype = Word, tvalue = [98, 98, 98, 98]\<rparr>, \<lparr>ttype = Space, tvalue = [32]\<rparr>,
      \<lparr>ttype = Word, tvalue = [99, 99, 99, 99]\<rparr>]
   = \<lparr>pages = [],
      currentPage = \<lparr>pageColumns = [\<lparr>lines = [[97, 97, 97, 97, 32, 98, 98, 98, 98]]\<rparr>]\<rparr>,
      currentColumnLines = [], cursorY = 0, currentLine = [99, 99, 99, 99],
      currentLineWidth = 40\<rparr>"
  by (simp add: step_defs)

lemma exampleA_finish:
  "finishLayout (flowMetrics [90, 90] 10 10) 2
     \<lparr>pages = [],
      currentPage = \<lparr>pageColumns = [\<lparr>lines = [[97, 97, 97, 97, 32, 98, 98, 98, 98]]\<rparr>]\<rparr>,
      currentColumnLines = [], cursorY = 0, currentLine = [99, 99, 99, 99],
      currentLineWidth = 40\<rparr>
   = [\<lparr>pageColumns = [\<lparr>lines = [[97, 97, 97, 97, 32, 98, 98, 98, 98]]\<rparr>,
                       \<lparr>lines = [[99, 99, 99, 99]]\<rparr>]\<rparr>]"
  by (simp add: finish_defs)

lemma example_two_columns:
  "layoutText monoBrowser
     (textConfig [97, 97, 97, 97, 32, 98, 98, 98, 98, 32, 99, 99, 99, 99] 2)
     (flowMetrics [90, 90] 10 10)
   = [\<lparr>pageColumns = [\<lparr>lines = [[97, 97, 97, 97, 32, 98, 98, 98, 98]]\<rparr>,
                       \<lparr>lines = [[99, 99, 99, 99]]\<rparr>]\<rparr>]"
  by (simp add: layout_defs exampleA_tokens exampleA_flow exampleA_finish del: foldl_Cons)


text \<open>
  The text of the five lines \<^verbatim>\<open>a\<close> to \<^verbatim>\<open>e\<close> with a column count of 2.5, in columns of
  50 pixels that hold one line each.
\<close>

lemma exampleE_tokens:
  "tokenize [97, 10, 98, 10, 99, 10, 100, 10, 101]
   = [\<lparr>ttype = Word, tvalue = [97]\<rparr>, \<lparr>ttype = Newline, tvalue = [10]\<rparr>,
      \<lparr>ttype = Word, tvalue = [98]\<rparr>, \<lparr>ttype = Newline, tvalue = [10]\<rparr>,
      \<lparr>ttype = Word, tvalue = [99]\<rparr>, \<lparr>ttype = Newline, tvalue = [10]\<rparr>,
      \<lparr>ttype = Word, tvalue = [100]\<rparr>, \<lparr>ttype = Newline, tvalue = [10]\<rparr>,
      \<lparr>ttype = Word, tvalue = [101]\<rparr>]"
  by (simp add: tokenize_def isSpace_def)

lemma exampleE_flow:
  "foldl (processToken monoWidth (flowMetrics [50, 50] 10 10) (5 / 2)) initialState
     [\<lparr>ttype = Word, tvalue = [97]\<rparr>, \<lparr>ttype = Newline, tvalue = [10]\<rparr>,
      \<lparr>ttype = Word, tvalue = [98]\<rparr>, \<lparr>ttype = Newline, tvalue = [10]\<rparr>,
      \<lparr>ttype = Word, tvalue = [99]\<rparr>, \<lparr>ttype = Newline, tvalue = [10]\<rparr>,
      \<lparr>ttype = Word, tvalue = [100]\<rparr>, \<lparr>ttype = Newline, tvalue = [10]\<rparr>,
      \<lparr>ttype = Word, tvalue = [101]\<rparr>]
   = \<lparr>pages = [],
      currentPage = \<lparr>pageColumns = [\<lparr>lines = [[97]]\<rparr>, \<lparr>lines = [[98]]\<rparr>,
        \<lparr>lines = [[99]]\<rparr>, \<lparr>lines = [[100]]\<rparr>]\<rparr>,
      currentColumnLines = [], cursorY = 0, currentLine = [101], currentLineWidth = 10\<rparr>"
  by (simp add: step_defs)

lemma exampleE_finish:
  "finishLayout (flowMetrics [50, 50] 10 10) (5 / 2)
     \<lparr>pages = [],
      currentPage = \<lparr>pageColumns = [\<lparr>lines = [[97]]\<rparr>, \<lparr>lines = [[98]]\<rparr>,
        \<lparr>lines = [[99]]\<rparr>, \<lparr>lines = [[100]]\<rparr>]\<rparr>,
      currentColumnLines = [], cursorY = 0, currentLine = [101], currentLineWidth = 10\<rparr>
   = [\<lparr>pageColumns = [\<lparr>lines = [[97]]\<rparr>, \<lparr>lines = [[98]]\<rparr>, \<lparr>lines = [[99]]\<rparr>,
        \<lparr>lines = [[100]]\<rparr>, \<lparr>lines = [[101]]\<rparr>]\<rparr>]"
  by (simp add: finish_defs)

lemma example_fractional_count:
  "layoutText monoBrowser (textConfig [97, 10, 98, 10, 99, 10, 100, 10, 101] (5 / 2))
     (flowMetrics [50, 50] 10 10)
   = [\<lparr>pageColumns = [\<lparr>lines = [[97]]\<rparr>, \<lparr>lines = [[98]]\<rparr>, \<lparr>lines = [[99]]\<rparr>,
        \<lparr>lines = [[100]]\<rparr>, \<lparr>lines = [[101]]\<rparr>]\<rparr>]"
  by (simp add: layout_defs exampleE_tokens exampleE_flow exampleE_finish del: foldl_Cons)

section \<open>Claims on pages and columns\<close>

text \<open>
  C4 (as amended). When \<^verbatim>\<open>config.columns\<close> is a whole number, and a window is defined or
  \<^verbatim>\<open>config.columns\<close> is at least 1, every page returned by \<^verbatim>\<open>layoutText\<close> has exactly
  \<^verbatim>\<open>columnCount = Math.max(config.columns, 1)\<close> columns: pages closed in the flow are
  closed when they reach that many columns and the last page is padded up to it.
\<close>

theorem layoutText_column_count:
  assumes "columns config \<in> \<int>"
    and "windowDefined browser \<or> 1 \<le> columns config"
  shows "\<forall>p \<in> set (layoutText browser config metrics).
           real (length (pageColumns p)) = max (columns config) 1"
proof -
  have z: "max (columns config) 1 \<in> \<int>"
    using assms(1) by (simp add: max_def)
  have "list_all (\<lambda>p. real (length (pageColumns p)) = max (columns config) 1)
          (flowTokens mw metrics (max (columns config) 1) toks)" for mw toks
    unfolding flowTokens_def
    by (rule finishLayout_columns) (simp_all add: pagesFull_foldl pagesFull_initial z)
  then show ?thesis
    using assms length_createEmptyPage[OF z] length_createEmptyPage[OF assms(1)]
    by (auto simp: layoutText_def Let_def list_all_iff split: option.splits)
qed

theorem layoutText_column_count_witness:
  "columns (textConfig [97, 97, 97, 97, 32, 98, 98, 98, 98, 32, 99, 99, 99, 99] 2) \<in> \<int>
   \<and> layoutText monoBrowser
     (textConfig [97, 97, 97, 97, 32, 98, 98, 98, 98, 32, 99, 99, 99, 99] 2)
     (flowMetrics [90, 90] 10 10)
   = [\<lparr>pageColumns = [\<lparr>lines = [[97, 97, 97, 97, 32, 98, 98, 98, 98]]\<rparr>,
                       \<lparr>lines = [[99, 99, 99, 99]]\<rparr>]\<rparr>]
   \<and> list_all (\<lambda>p. real (length (pageColumns p)) = 2)
        (layoutText monoBrowser
          (textConfig [97, 97, 97, 97, 32, 98, 98, 98, 98, 32, 99, 99, 99, 99] 2)
          (flowMetrics [90, 90] 10 10))"
  using layoutText_column_count[of
      "textConfig [97, 97, 97, 97, 32, 98, 98, 98, 98, 32, 99, 99, 99, 99] 2"
      monoBrowser "flowMetrics [90, 90] 10 10"]
  by (simp add: example_two_columns list_all_iff)

text \<open>
  C4 as stated fails for a fractional count, which the caller's clamp lets through: with
  \<^verbatim>\<open>config.columns = 2.5\<close> the number of closed columns never equals
  \<^verbatim>\<open>columnCount\<close>, no page is closed, and the five lines end in one page of five columns.
\<close>

theorem layoutText_column_count_counterexample:
  "layoutText monoBrowser (textConfig [97, 10, 98, 10, 99, 10, 100, 10, 101] (5 / 2))
     (flowMetrics [50, 50] 10 10)
   = [\<lparr>pageColumns = [\<lparr>lines = [[97]]\<rparr>, \<lparr>lines = [[98]]\<rparr>, \<lparr>lines = [[99]]\<rparr>,
        \<lparr>lines = [[100]]\<rparr>, \<lparr>lines = [[101]]\<rparr>]\<rparr>]
   \<and> real (length (pageColumns (hd (layoutText monoBrowser
         (textConfig [97, 10, 98, 10, 99, 10, 100, 10, 101] (5 / 2)) (flowMetrics [50, 50] 10 10)))))
       \<noteq> max (columns (textConfig [97, 10, 98, 10, 99, 10, 100, 10, 101] (5 / 2))) 1"
  by (simp add: example_fractional_count)

text \<open>
  C8. \<^verbatim>\<open>layoutText\<close> returns at least one page for every browser, configuration and
  metrics; for the empty text the result is a single page of empty columns (the page
  synthesized when the flow produced none).
\<close>

theorem layoutText_nonempty:
  "layoutText browser config metrics \<noteq> []
   \<and> layoutText browser (config\<lparr>configText := []\<rparr>) metrics
       = [createEmptyPage (if windowDefined browser then max (columns config) 1
                           else columns config)]"
  by (simp add: layoutText_def Let_def flowTokens_def finishLayout_def tokenize_def
      initialState_def split: option.splits)

text \<open>
  C10 (as amended). Without a window, and with a window but no 2D context,
  \<^verbatim>\<open>layoutText\<close> returns one page of empty columns, whatever the text. Their number is
  \<^verbatim>\<open>config.columns\<close> without a window and \<^verbatim>\<open>Math.max(config.columns, 1)\<close> without a
  context, each truncated to a whole number by \<^verbatim>\<open>Array.from\<close> (and not below 0): for a
  whole number \<^verbatim>\<open>config.columns\<close> the page has exactly \<^verbatim>\<open>Math.max(config.columns, 1)\<close>
  columns without a context, and exactly \<^verbatim>\<open>config.columns\<close> columns without a window when
  that number is not negative.
\<close>

theorem layoutText_no_backend:
  "layoutText \<lparr>windowDefined = False, context2d = ctx\<rparr> config metrics
     = [\<lparr>pageColumns = replicate (nat \<lfloor>columns config\<rfloor>) \<lparr>lines = []\<rparr>\<rparr>]
   \<and> layoutText \<lparr>windowDefined = True, context2d = None\<rparr> config metrics
     = [\<lparr>pageColumns = replicate (nat \<lfloor>max (columns config) 1\<rfloor>) \<lparr>lines = []\<rparr>\<rparr>]
   \<and> (columns config \<in> \<int> \<longrightarrow>
        real (length (pageColumns (hd (layoutText \<lparr>windowDefined = True, context2d = None\<rparr>
          config metrics)))) = max (columns config) 1)
   \<and> (columns config \<in> \<int> \<and> 0 \<le> columns config \<longrightarrow>
        real (length (pageColumns (hd (layoutText \<lparr>windowDefined = False, context2d = ctx\<rparr>
          config metrics)))) = columns config)"
proof -
  have a: "layoutText \<lparr>windowDefined = False, context2d = ctx\<rparr> config metrics
     = [createEmptyPage (columns config)]"
    by (simp add: layoutText_def)
  have b: "layoutText \<lparr>windowDefined = True, context2d = None\<rparr> config metrics
     = [createEmptyPage (max (columns config) 1)]"
    by (simp add: layoutText_def Let_def)
  have c: "real (length (pageColumns (createEmptyPage (max (columns config) 1))))
      = max (columns config) 1" if "columns config \<in> \<int>"
  proof -
    have "max (columns config) 1 \<in> \<int>" using that by (simp add: max_def)
    from length_createEmptyPage[OF this] show ?thesis by simp
  qed
  have d: "real (length (pageColumns (createEmptyPage (columns config)))) = columns config"
    if "columns config \<in> \<int>" "0 \<le> columns config"
    using length_createEmptyPage[OF that(1)] that(2) by simp
  show ?thesis
    unfolding a b using c d by (simp add: createEmptyPage_def)
qed

theorem layoutText_no_backend_witness:
  "columns (textConfig [120] 3) \<in> \<int>
   \<and> layoutText \<lparr>windowDefined = True, context2d = None\<rparr> (textConfig [120] 3)
       (flowMetrics [50] 100 10)
     = [\<lparr>pageColumns = [\<lparr>lines = []\<rparr>, \<lparr>lines = []\<rparr>, \<lparr>lines = []\<rparr>]\<rparr>]
   \<and> real (length (pageColumns (hd (layoutText \<lparr>windowDefined = True, context2d = None\<rparr>
         (textConfig [120] 3) (flowMetrics [50] 100 10))))) = 3
   \<and> real (length (pageColumns (hd (layoutText \<lparr>windowDefined = False, context2d = None\<rparr>
         (textConfig [120] 3) (flowMetrics [50] 100 10))))) = 3"
  using layoutText_no_backend[of None "textConfig [120] 3" "flowMetrics [50] 100 10"]
  by (simp add: numeral_3_eq_3)

text \<open>
  C10 as stated fails for a fractional count, which the caller's clamp lets through: with
  a window, no 2D context and \<^verbatim>\<open>config.columns = 2.5\<close> the page has 2 columns, not
  \<^verbatim>\<open>Math.max(config.columns, 1)\<close> of them.
\<close>

theorem layoutText_no_backend_counterexample:
  "layoutText \<lparr>windowDefined = True, context2d = None\<rparr> (textConfig [120] (5 / 2))
       (flowMetrics [50] 100 10)
     = [\<lparr>pageColumns = [\<lparr>lines = []\<rparr>, \<lparr>lines = []\<rparr>]\<rparr>]
   \<and> real (length (pageColumns (hd (layoutText \<lparr>windowDefined = True, context2d = None\<rparr>
         (textConfig [120] (5 / 2)) (flowMetrics [50] 100 10)))))
       \<noteq> max (columns (textConfig [120] (5 / 2))) 1"
proof -
  have "nat \<lfloor>max (5 / 2 :: real) 1\<rfloor> = 2" by simp
  then show ?thesis
    by (simp add: layoutText_def Let_def createEmptyPage_def numeral_2_eq_2)
qed

section \<open>Vertical room\<close>

lemma noOverflow_finishColumn:
  "noOverflow m st \<Longrightarrow> 0 \<le> columnHeightPx m + 0.1 \<Longrightarrow> noOverflow m (finishColumn cc st)"
  by (auto simp: noOverflow_def finishColumn_def Let_def columnFits_def)

lemma noOverflow_ensure:
  "noOverflow m st \<Longrightarrow> 0 \<le> columnHeightPx m + 0.1
   \<Longrightarrow> noOverflow m (ensureColumnSpaceForNextLine m cc st)"
  by (simp add: ensureColumnSpaceForNextLine_def noOverflow_finishColumn)

lemma room_after_ensure:
  "lineHeightPx m \<le> columnHeightPx m + 0.1
   \<Longrightarrow> cursorY (ensureColumnSpaceForNextLine m cc st) + lineHeightPx m \<le> columnHeightPx m + 0.1"
  by (simp add: ensureColumnSpaceForNextLine_def finishColumn_def Let_def)

lemma noOverflow_commitLine:
  assumes "noOverflow m st" and "lineHeightPx m \<le> columnHeightPx m + 0.1"
    and "0 \<le> columnHeightPx m + 0.1"
  shows "noOverflow m (commitLine m cc l st)"
proof -
  define st1 where "st1 = ensureColumnSpaceForNextLine m cc st"
  have inv: "noOverflow m st1" unfolding st1_def by (rule noOverflow_ensure) fact+
  have room: "cursorY st1 + lineHeightPx m \<le> columnHeightPx m + 0.1"
    unfolding st1_def by (rule room_after_ensure) fact
  show ?thesis
    using inv room unfolding commitLine_def Let_def st1_def[symmetric]
    by (simp add: noOverflow_def algebra_simps)
qed

lemma noOverflow_line [simp]:
  "noOverflow m (st\<lparr>currentLine := x, currentLineWidth := y\<rparr>) = noOverflow m st"
  by (simp add: noOverflow_def)

lemma noOverflow_splitBody:
  "noOverflow m st \<Longrightarrow> lineHeightPx m \<le> columnHeightPx m + 0.1 \<Longrightarrow> 0 \<le> columnHeightPx m + 0.1
   \<Longrightarrow> noOverflow m (fst (splitBody mw m cc (st, r)))"
  by (simp add: splitBody_def Let_def noOverflow_ensure noOverflow_commitLine)

lemma noOverflow_splitLongWord:
  "noOverflow m st \<Longrightarrow> lineHeightPx m \<le> columnHeightPx m + 0.1 \<Longrightarrow> 0 \<le> columnHeightPx m + 0.1
   \<Longrightarrow> noOverflow m (splitLongWord mw m cc st r)"
  by (rule splitLongWord_invariant) (simp_all add: noOverflow_splitBody)

lemma noOverflow_processToken:
  "noOverflow m st \<Longrightarrow> lineHeightPx m \<le> columnHeightPx m + 0.1 \<Longrightarrow> 0 \<le> columnHeightPx m + 0.1
   \<Longrightarrow> noOverflow m (processToken mw m cc st tok)"
  by (cases "ttype tok")
     (simp_all add: processToken_def Let_def noOverflow_commitLine noOverflow_ensure
        noOverflow_splitLongWord)

lemma noOverflow_foldl:
  "noOverflow m st \<Longrightarrow> lineHeightPx m \<le> columnHeightPx m + 0.1 \<Longrightarrow> 0 \<le> columnHeightPx m + 0.1
   \<Longrightarrow> noOverflow m (foldl (processToken mw m cc) st toks)"
  by (induction toks arbitrary: st) (simp_all add: noOverflow_processToken)

lemma padColumns_append:
  "\<exists>n. padColumns cc cols = cols @ replicate n \<lparr>lines = []\<rparr>"
proof (induction cc cols rule: padColumns.induct)
  case (1 cc cols)
  show ?case
  proof (cases "real (length cols) < cc")
    case True
    from "1.IH"[OF True] obtain n where
      "padColumns cc (cols @ [\<lparr>lines = []\<rparr>]) = (cols @ [\<lparr>lines = []\<rparr>]) @ replicate n \<lparr>lines = []\<rparr>"
      by blast
    then have "padColumns cc cols = cols @ replicate (Suc n) \<lparr>lines = []\<rparr>"
      using True by (simp add: padColumns.simps[of cc cols])
    then show ?thesis by blast
  next
    case False
    then have "padColumns cc cols = cols @ replicate 0 \<lparr>lines = []\<rparr>"
      by (simp add: padColumns.simps[of cc cols])
    then show ?thesis by blast
  qed
qed

lemma columnFits_empty: "0 \<le> columnHeightPx m + 0.1 \<Longrightarrow> columnFits m \<lparr>lines = []\<rparr>"
  by (simp add: columnFits_def)

lemma finishLayout_fits:
  assumes "noOverflow m st" and "lineHeightPx m \<le> columnHeightPx m + 0.1"
    and "0 \<le> columnHeightPx m + 0.1"
  shows "list_all (\<lambda>p. list_all (columnFits m) (pageColumns p)) (finishLayout m cc st)"
proof -
  define st1 where "st1 = (if currentLine st \<noteq> [] then commitLine m cc (currentLine st) st else st)"
  have p: "noOverflow m st1" using assms by (simp add: st1_def noOverflow_commitLine)
  obtain n where n: "padColumns cc (pageColumns (currentPage st1) @ [\<lparr>lines = currentColumnLines st1\<rparr>])
      = (pageColumns (currentPage st1) @ [\<lparr>lines = currentColumnLines st1\<rparr>]) @ replicate n \<lparr>lines = []\<rparr>"
    using padColumns_append by blast
  have last: "columnFits m \<lparr>lines = currentColumnLines st1\<rparr>"
    using p by (simp add: noOverflow_def columnFits_def)
  have "list_all (columnFits m)
      (padColumns cc (pageColumns (currentPage st1) @ [\<lparr>lines = currentColumnLines st1\<rparr>]))"
    unfolding n using p last columnFits_empty[OF assms(3)]
    by (auto simp: noOverflow_def list_all_iff)
  then show ?thesis
    using p columnFits_empty[OF assms(3)] unfolding finishLayout_def st1_def[symmetric] Let_def
    by (auto simp: noOverflow_def createEmptyPage_def list_all_iff)
qed

lemma noOverflow_initial: "0 \<le> columnHeightPx m + 0.1 \<Longrightarrow> noOverflow m initialState"
  by (simp add: noOverflow_def initialState_def)

text \<open>
  The text \<^verbatim>\<open>a\<close> in one column of height 10 with lines of height 20.
\<close>

lemma exampleB_tokens: "tokenize [97] = [\<lparr>ttype = Word, tvalue = [97]\<rparr>]"
  by (simp add: tokenize_def isSpace_def)

lemma exampleB_flow:
  "foldl (processToken monoWidth (flowMetrics [100] 10 20) 1) initialState
     [\<lparr>ttype = Word, tvalue = [97]\<rparr>]
   = \<lparr>pages = [\<lparr>pageColumns = [\<lparr>lines = []\<rparr>]\<rparr>], currentPage = \<lparr>pageColumns = []\<rparr>,
      currentColumnLines = [], cursorY = 0, currentLine = [97], currentLineWidth = 10\<rparr>"
  by (simp add: step_defs)

lemma exampleB_finish:
  "finishLayout (flowMetrics [100] 10 20) 1
     \<lparr>pages = [\<lparr>pageColumns = [\<lparr>lines = []\<rparr>]\<rparr>], currentPage = \<lparr>pageColumns = []\<rparr>,
      currentColumnLines = [], cursorY = 0, currentLine = [97], currentLineWidth = 10\<rparr>
   = [\<lparr>pageColumns = [\<lparr>lines = []\<rparr>]\<rparr>, \<lparr>pageColumns = [\<lparr>lines = []\<rparr>]\<rparr>,
      \<lparr>pageColumns = [\<lparr>lines = [[97]]\<rparr>]\<rparr>]"
  by (simp add: finish_defs)

lemma example_tall_line:
  "layoutText monoBrowser (textConfig [97] 1) (flowMetrics [100] 10 20)
   = [\<lparr>pageColumns = [\<lparr>lines = []\<rparr>]\<rparr>, \<lparr>pageColumns = [\<lparr>lines = []\<rparr>]\<rparr>,
      \<lparr>pageColumns = [\<lparr>lines = [[97]]\<rparr>]\<rparr>]"
  by (simp add: layout_defs exampleB_tokens exampleB_flow exampleB_finish del: foldl_Cons)

text \<open>
  C1 (as amended). When the line height is at most the column height plus 0.1 (and that
  bound is not negative), every column of every page returned by \<^verbatim>\<open>layoutText\<close> holds
  lines whose number times the line height is at most the column height plus 0.1.
\<close>

theorem layoutText_no_overflow:
  assumes "lineHeightPx metrics \<le> columnHeightPx metrics + 0.1"
    and "0 \<le> columnHeightPx metrics + 0.1"
  shows "\<forall>p \<in> set (layoutText browser config metrics). \<forall>c \<in> set (pageColumns p).
           real (length (lines c)) * lineHeightPx metrics \<le> columnHeightPx metrics + 0.1"
proof -
  have flow: "list_all (\<lambda>p. list_all (columnFits metrics) (pageColumns p))
          (flowTokens mw metrics cc toks)" for mw cc toks
    unfolding flowTokens_def
    by (rule finishLayout_fits) (simp_all add: assms noOverflow_foldl noOverflow_initial)
  have empty: "list_all (columnFits metrics) (pageColumns (createEmptyPage n))" for n
    using columnFits_empty[OF assms(2)] by (auto simp: createEmptyPage_def list_all_iff)
  have "list_all (\<lambda>p. list_all (columnFits metrics) (pageColumns p))
          (layoutText browser config metrics)"
    using flow empty by (simp add: layoutText_def Let_def split: option.splits)
  then show ?thesis by (simp add: list_all_iff columnFits_def)
qed

theorem layoutText_no_overflow_witness:
  "lineHeightPx (flowMetrics [90, 90] 10 10) \<le> columnHeightPx (flowMetrics [90, 90] 10 10) + 0.1
   \<and> 0 \<le> columnHeightPx (flowMetrics [90, 90] 10 10) + 0.1
   \<and> layoutText monoBrowser
       (textConfig [97, 97, 97, 97, 32, 98, 98, 98, 98, 32, 99, 99, 99, 99] 2)
       (flowMetrics [90, 90] 10 10)
     = [\<lparr>pageColumns = [\<lparr>lines = [[97, 97, 97, 97, 32, 98, 98, 98, 98]]\<rparr>,
                         \<lparr>lines = [[99, 99, 99, 99]]\<rparr>]\<rparr>]
   \<and> list_all (\<lambda>p. list_all (\<lambda>c. real (length (lines c)) * 10 \<le> 10 + 0.1) (pageColumns p))
        (layoutText monoBrowser
          (textConfig [97, 97, 97, 97, 32, 98, 98, 98, 98, 32, 99, 99, 99, 99] 2)
          (flowMetrics [90, 90] 10 10))"
  using layoutText_no_overflow[of "flowMetrics [90, 90] 10 10" monoBrowser
      "textConfig [97, 97, 97, 97, 32, 98, 98, 98, 98, 32, 99, 99, 99, 99] 2"]
  by (simp add: example_two_columns)

text \<open>
  C1 as stated fails when one line is higher than the column: every line is still
  placed, alone in its column, and 1 times 20 exceeds 10 plus 0.1.
\<close>

theorem layoutText_no_overflow_counterexample:
  "layoutText monoBrowser (textConfig [97] 1) (flowMetrics [100] 10 20)
     = [\<lparr>pageColumns = [\<lparr>lines = []\<rparr>]\<rparr>, \<lparr>pageColumns = [\<lparr>lines = []\<rparr>]\<rparr>,
        \<lparr>pageColumns = [\<lparr>lines = [[97]]\<rparr>]\<rparr>]
   \<and> \<not> real (length (lines \<lparr>lines = [[97 :: nat]]\<rparr>)) * lineHeightPx (flowMetrics [100] 10 20)
         \<le> columnHeightPx (flowMetrics [100] 10 20) + 0.1"
  by (simp add: example_tall_line)

section \<open>Splitting a long word\<close>

lemma committedLines_finishColumn: "committedLines (finishColumn cc st) = committedLines st"
  by (simp add: committedLines_def finishColumn_def Let_def pageLines_def)

lemma committedLines_ensure:
  "committedLines (ensureColumnSpaceForNextLine m cc st) = committedLines st"
  by (simp add: ensureColumnSpaceForNextLine_def committedLines_finishColumn)

lemma committedLines_commitLine:
  "committedLines (commitLine m cc l st)
   = committedLines st @ [if trimEnd l = [] then [0xA0] else trimEnd l]"
  using committedLines_ensure[of m cc st]
  by (simp add: commitLine_def Let_def committedLines_def)

lemma trimEnd_no_space:
  assumes "l \<noteq> []" and "\<not> isSpace (last l)"
  shows "trimEnd l = l"
proof (cases l rule: rev_cases)
  case Nil
  with assms(1) show ?thesis by simp
next
  case (snoc ys y)
  with assms(2) show ?thesis by (simp add: trimEnd_def)
qed

lemma getColumnWidth_in_set:
  "cws \<noteq> [] \<Longrightarrow> getColumnWidth cws st \<in> set cws"
  by (simp add: getColumnWidth_def Let_def)

lemma splitLongWord_Nil: "splitLongWord mw m cc st [] = st"
  by (simp add: splitLongWord.simps)

lemma splitLongWord_step:
  "r \<noteq> [] \<Longrightarrow> splitLongWord mw m cc st r
     = splitLongWord mw m cc (fst (splitBody mw m cc (st, r))) (snd (splitBody mw m cc (st, r)))"
  by (simp add: splitLongWord.simps[of mw m cc st r] split: prod.splits)

lemma split_segments:
  assumes cws: "columnWidthsPx m \<noteq> []"
  shows "r \<noteq> [] \<Longrightarrow> \<forall>c \<in> set r. \<not> isSpace c \<Longrightarrow>
    \<exists>segs. segs \<noteq> [] \<and> concat segs = r
      \<and> hd segs = take (nat (bestPrefix mw (getColumnWidth (columnWidthsPx m) st) r)) r
      \<and> committedLines (splitLongWord mw m cc st r) = committedLines st @ butlast segs
      \<and> currentLine (splitLongWord mw m cc st r) = last segs
      \<and> currentLineWidth (splitLongWord mw m cc st r) = mw (last segs)
      \<and> (\<forall>s \<in> set segs. s \<noteq> [] \<and>
            (length s = 1 \<or> (\<exists>w \<in> set (columnWidthsPx m). mw s \<le> w + 0.1)))"
proof (induction "length r" arbitrary: st r rule: less_induct)
  case less
  define cw where "cw = getColumnWidth (columnWidthsPx m) st"
  define st1 where "st1 = ensureColumnSpaceForNextLine m cc st"
  define b where "b = bestPrefix mw cw r"
  define seg where "seg = take (nat b) r"
  have bb: "1 \<le> b" "b \<le> int (length r)"
    using bestPrefix_bounds[OF less.prems(1), of mw cw] by (simp_all add: b_def)
  have seg_ne: "seg \<noteq> []" using bb less.prems(1) by (simp add: seg_def)
  have seg_len: "length seg = nat b" using bb by (simp add: seg_def)
  have cw_in: "cw \<in> set (columnWidthsPx m)"
    unfolding cw_def by (rule getColumnWidth_in_set[OF cws])
  have seg_fit: "length seg = 1 \<or> (\<exists>w \<in> set (columnWidthsPx m). mw seg \<le> w + 0.1)"
    using bestPrefix_fits[of mw cw r] cw_in seg_len by (auto simp: b_def seg_def)
  show ?case
  proof (cases "b = int (length r)")
    case True
    have body: "splitBody mw m cc (st, r)
        = (st1\<lparr>currentLine := seg, currentLineWidth := mw seg\<rparr>, [])"
      using True by (simp add: splitBody_def Let_def cw_def st1_def b_def seg_def)
    have res: "splitLongWord mw m cc st r = st1\<lparr>currentLine := seg, currentLineWidth := mw seg\<rparr>"
      by (simp add: splitLongWord_step[OF less.prems(1)] body splitLongWord_Nil)
    have segr: "seg = r" using True by (simp add: seg_def)
    have cl: "committedLines (st1\<lparr>currentLine := seg, currentLineWidth := mw seg\<rparr>) = committedLines st"
      using committedLines_ensure[of m cc st] by (simp add: committedLines_def st1_def)
    have "[seg] \<noteq> [] \<and> concat [seg] = r
      \<and> hd [seg] = take (nat (bestPrefix mw (getColumnWidth (columnWidthsPx m) st) r)) r
      \<and> committedLines (splitLongWord mw m cc st r) = committedLines st @ butlast [seg]
      \<and> currentLine (splitLongWord mw m cc st r) = last [seg]
      \<and> currentLineWidth (splitLongWord mw m cc st r) = mw (last [seg])
      \<and> (\<forall>s \<in> set [seg]. s \<noteq> [] \<and>
            (length s = 1 \<or> (\<exists>w \<in> set (columnWidthsPx m). mw s \<le> w + 0.1)))"
      using segr seg_ne seg_fit cl by (simp add: res seg_def b_def cw_def)
    then show ?thesis by blast
  next
    case False
    define st' where "st' = commitLine m cc seg st1"
    define r' where "r' = drop (nat b) r"
    have body: "splitBody mw m cc (st, r) = (st', r')"
      using False by (simp add: splitBody_def Let_def cw_def st1_def b_def seg_def st'_def r'_def)
    have res: "splitLongWord mw m cc st r = splitLongWord mw m cc st' r'"
      by (simp add: splitLongWord_step[OF less.prems(1)] body)
    have r'_ne: "r' \<noteq> []" using False bb by (simp add: r'_def)
    have r'_len: "length r' < length r" using bb less.prems(1) by (simp add: r'_def)
    have r'_ns: "\<forall>c \<in> set r'. \<not> isSpace c"
      using less.prems(2) by (auto simp: r'_def dest: in_set_dropD)
    have seg_ns: "\<not> isSpace (last seg)"
      using less.prems(2) seg_ne by (metis in_set_takeD last_in_set seg_def)
    have trim: "trimEnd seg = seg" by (rule trimEnd_no_space[OF seg_ne seg_ns])
    have cl: "committedLines st' = committedLines st @ [seg]"
      using seg_ne by (simp add: st'_def committedLines_commitLine trim st1_def committedLines_ensure)
    from less.hyps[OF r'_len r'_ne r'_ns, of st'] obtain segs where
      s: "segs \<noteq> []" "concat segs = r'"
        "committedLines (splitLongWord mw m cc st' r') = committedLines st' @ butlast segs"
        "currentLine (splitLongWord mw m cc st' r') = last segs"
        "currentLineWidth (splitLongWord mw m cc st' r') = mw (last segs)"
        "\<forall>s \<in> set segs. s \<noteq> [] \<and>
            (length s = 1 \<or> (\<exists>w \<in> set (columnWidthsPx m). mw s \<le> w + 0.1))"
      by blast
    have "seg # segs \<noteq> [] \<and> concat (seg # segs) = r
      \<and> hd (seg # segs) = take (nat (bestPrefix mw (getColumnWidth (columnWidthsPx m) st) r)) r
      \<and> committedLines (splitLongWord mw m cc st r) = committedLines st @ butlast (seg # segs)
      \<and> currentLine (splitLongWord mw m cc st r) = last (seg # segs)
      \<and> currentLineWidth (splitLongWord mw m cc st r) = mw (last (seg # segs))
      \<and> (\<forall>s \<in> set (seg # segs). s \<noteq> [] \<and>
            (length s = 1 \<or> (\<exists>w \<in> set (columnWidthsPx m). mw s \<le> w + 0.1)))"
      using s seg_ne seg_fit cl by (simp add: res seg_def r'_def b_def cw_def)
    then show ?thesis by blast
  qed
qed

text \<open>
  Words of one, two and five characters split from the initial state, each character 10
  pixels wide, in a column of 5 or 25 pixels.
\<close>

lemma split_two_chars:
  "splitLongWord monoWidth (flowMetrics [5] 100 10) 1 initialState [97, 98]
   = \<lparr>pages = [], currentPage = \<lparr>pageColumns = []\<rparr>, currentColumnLines = [[97]],
      cursorY = 10, currentLine = [98], currentLineWidth = 10\<rparr>"
  by (simp add: step_defs)

lemma split_one_char:
  "splitLongWord monoWidth (flowMetrics [5] 100 10) 1 initialState [97]
   = \<lparr>pages = [], currentPage = \<lparr>pageColumns = []\<rparr>, currentColumnLines = [],
      cursorY = 0, currentLine = [97], currentLineWidth = 10\<rparr>"
  by (simp add: step_defs)

lemma split_five_chars:
  "splitLongWord monoWidth (flowMetrics [25] 100 10) 1 initialState [97, 98, 99, 100, 101]
   = \<lparr>pages = [], currentPage = \<lparr>pageColumns = []\<rparr>, currentColumnLines = [[97, 98], [99, 100]],
      cursorY = 20, currentLine = [101], currentLineWidth = 10\<rparr>"
  by (simp add: step_defs)

lemma committedLines_initial [simp]: "committedLines initialState = []"
  by (simp add: committedLines_def initialState_def pageLines_def)

text \<open>
  C3 (as amended). Let a word without white space measure more than the width of the
  column being filled when \<^verbatim>\<open>splitLongWord\<close> starts, plus 0.1. Then the segments that
  \<^verbatim>\<open>splitLongWord\<close> emits (the committed lines, followed by the segment left in the line
  buffer) concatenate to the word; there are at least two of them when the word has at
  least two characters; and every segment is either a single character (taken by force
  when not even one character fits) or measures at most the width of a configured column
  plus 0.1, the first one at most the width of the column being filled at the start.
\<close>

theorem splitLongWord_segments:
  assumes "columnWidthsPx metrics \<noteq> []" and "word \<noteq> []"
    and "\<forall>c \<in> set word. \<not> isSpace c"
    and "measureWidth word > getColumnWidth (columnWidthsPx metrics) st + 0.1"
  shows "\<exists>segs. concat segs = word
      \<and> (2 \<le> length word \<longrightarrow> 2 \<le> length segs)
      \<and> committedLines (splitLongWord measureWidth metrics columnCount st word)
          = committedLines st @ butlast segs
      \<and> currentLine (splitLongWord measureWidth metrics columnCount st word) = last segs
      \<and> (\<forall>s \<in> set segs. s \<noteq> [] \<and>
            (length s = 1 \<or> (\<exists>w \<in> set (columnWidthsPx metrics). measureWidth s \<le> w + 0.1)))
      \<and> (length (hd segs) = 1
          \<or> measureWidth (hd segs) \<le> getColumnWidth (columnWidthsPx metrics) st + 0.1)"
proof -
  define cw where "cw = getColumnWidth (columnWidthsPx metrics) st"
  define b where "b = bestPrefix measureWidth cw word"
  from split_segments[OF assms(1) assms(2) assms(3), of measureWidth st columnCount]
  obtain segs where
    s: "segs \<noteq> []" "concat segs = word" "hd segs = take (nat b) word"
      "committedLines (splitLongWord measureWidth metrics columnCount st word)
         = committedLines st @ butlast segs"
      "currentLine (splitLongWord measureWidth metrics columnCount st word) = last segs"
      "\<forall>s \<in> set segs. s \<noteq> [] \<and>
          (length s = 1 \<or> (\<exists>w \<in> set (columnWidthsPx metrics). measureWidth s \<le> w + 0.1))"
    unfolding b_def cw_def by blast
  have bb: "1 \<le> b" "b \<le> int (length word)"
    using bestPrefix_bounds[OF assms(2), of measureWidth cw] by (simp_all add: b_def)
  have fit: "b = 1 \<or> measureWidth (take (nat b) word) \<le> cw + 0.1"
    using bestPrefix_fits[of measureWidth cw word] by (simp add: b_def)
  have hd_fit: "length (hd segs) = 1 \<or> measureWidth (hd segs) \<le> cw + 0.1"
    using fit bb by (auto simp: s(3))
  have two: "2 \<le> length segs" if "2 \<le> length word"
  proof -
    have "b \<noteq> int (length word)"
    proof
      assume e: "b = int (length word)"
      then have "take (nat b) word = word" by simp
      with fit e that assms(4) show False by (simp add: cw_def)
    qed
    then have "hd segs \<noteq> word" using bb by (simp add: s(3))
    then have "segs \<noteq> [hd segs]" using s(2) by (metis concat.simps(1,2) append_Nil2)
    then show ?thesis using s(1) by (cases segs; cases "tl segs") auto
  qed
  show ?thesis
    using s two hd_fit unfolding cw_def by blast
qed

theorem splitLongWord_segments_witness:
  "getColumnWidth (columnWidthsPx (flowMetrics [25] 100 10)) initialState + 0.1
     < monoWidth [97, 98, 99, 100, 101]
   \<and> list_all (\<lambda>c. \<not> isSpace c) [97, 98, 99, 100, 101]
   \<and> committedLines
        (splitLongWord monoWidth (flowMetrics [25] 100 10) 1 initialState [97, 98, 99, 100, 101])
      = [[97, 98], [99, 100]]
   \<and> currentLine
        (splitLongWord monoWidth (flowMetrics [25] 100 10) 1 initialState [97, 98, 99, 100, 101])
      = [101]
   \<and> (\<exists>segs :: jsstring list. concat segs = [97, 98, 99, 100, 101] \<and> 2 \<le> length segs
        \<and> [[97, 98], [99, 100]] = butlast segs \<and> [101] = last segs)"
proof -
  have h1: "columnWidthsPx (flowMetrics [25] 100 10) \<noteq> []" by simp
  have h2: "[97, 98, 99, 100, 101] \<noteq> ([] :: jsstring)" by simp
  have h3: "\<forall>c \<in> set [97, 98, 99, 100, 101]. \<not> isSpace c" by (simp add: isSpace_def)
  have h4: "getColumnWidth (columnWidthsPx (flowMetrics [25] 100 10)) initialState + 0.1
      < monoWidth [97, 98, 99, 100, 101]"
    by (simp add: getColumnWidth_def initialState_def monoWidth_def)
  have c: "committedLines
        (splitLongWord monoWidth (flowMetrics [25] 100 10) 1 initialState [97, 98, 99, 100, 101])
      = [[97, 98], [99, 100]]"
    by (simp add: split_five_chars committedLines_def pageLines_def)
  have l: "currentLine
        (splitLongWord monoWidth (flowMetrics [25] 100 10) 1 initialState [97, 98, 99, 100, 101])
      = [101]"
    by (simp add: split_five_chars)
  from splitLongWord_segments[where metrics = "flowMetrics [25] 100 10"
      and word = "[97, 98, 99, 100, 101]" and measureWidth = monoWidth
      and st = initialState and columnCount = 1, OF h1 h2 h3 h4]
  obtain segs where
    "concat segs = [97, 98, 99, 100, 101]" "2 \<le> length segs"
    "committedLines
       (splitLongWord monoWidth (flowMetrics [25] 100 10) 1 initialState [97, 98, 99, 100, 101])
     = committedLines initialState @ butlast segs"
    "currentLine
       (splitLongWord monoWidth (flowMetrics [25] 100 10) 1 initialState [97, 98, 99, 100, 101])
     = last segs"
    by auto
  then have "\<exists>segs :: jsstring list. concat segs = [97, 98, 99, 100, 101] \<and> 2 \<le> length segs
      \<and> [[97, 98], [99, 100]] = butlast segs \<and> [101] = last segs"
    unfolding c l by auto
  with h3 h4 c l show ?thesis by (simp add: list_all_iff)
qed

text \<open>
  C3 as stated fails when one character is wider than the column. The word \<^verbatim>\<open>ab\<close> in a
  column of 5 pixels is split into \<^verbatim>\<open>a\<close> and \<^verbatim>\<open>b\<close>, each 10 pixels wide; the word \<^verbatim>\<open>a\<close>
  is kept whole in the line buffer, one segment and no committed line.
\<close>

theorem splitLongWord_segments_counterexample:
  "getColumnWidth (columnWidthsPx (flowMetrics [5] 100 10)) initialState + 0.1
     < monoWidth [97, 98]
   \<and> committedLines (splitLongWord monoWidth (flowMetrics [5] 100 10) 1 initialState [97, 98])
      = [[97]]
   \<and> currentLine (splitLongWord monoWidth (flowMetrics [5] 100 10) 1 initialState [97, 98])
      = [98]
   \<and> \<not> monoWidth [97] \<le> 5 + 0.1
   \<and> getColumnWidth (columnWidthsPx (flowMetrics [5] 100 10)) initialState + 0.1
     < monoWidth [97]
   \<and> committedLines (splitLongWord monoWidth (flowMetrics [5] 100 10) 1 initialState [97]) = []
   \<and> currentLine (splitLongWord monoWidth (flowMetrics [5] 100 10) 1 initialState [97]) = [97]"
proof -
  have w: "getColumnWidth (columnWidthsPx (flowMetrics [5] 100 10)) initialState + 0.1
        < monoWidth [97, 98]"
      "getColumnWidth (columnWidthsPx (flowMetrics [5] 100 10)) initialState + 0.1
        < monoWidth [97]"
      "\<not> monoWidth [97] \<le> 5 + 0.1"
    by (simp_all add: getColumnWidth_def initialState_def monoWidth_def)
  have c: "committedLines (splitLongWord monoWidth (flowMetrics [5] 100 10) 1 initialState [97, 98])
        = [[97]]"
      "committedLines (splitLongWord monoWidth (flowMetrics [5] 100 10) 1 initialState [97]) = []"
    by (simp_all add: split_two_chars split_one_char committedLines_def pageLines_def)
  show ?thesis
    using w c by (simp add: split_two_chars split_one_char)
qed

section \<open>Column width used by the fit checks\<close>

text \<open>
  The word \<^verbatim>\<open>aaaaaaaaaa\<close> in two columns of 60 and 20 pixels that hold one line each.
\<close>

lemma exampleC_tokens:
  "tokenize [97, 97, 97, 97, 97, 97, 97, 97, 97, 97]
   = [\<lparr>ttype = Word, tvalue = [97, 97, 97, 97, 97, 97, 97, 97, 97, 97]\<rparr>]"
  by (simp add: tokenize_def isSpace_def)

lemma exampleC_flow:
  "foldl (processToken monoWidth (flowMetrics [60, 20] 10 10) 2) initialState
     [\<lparr>ttype = Word, tvalue = [97, 97, 97, 97, 97, 97, 97, 97, 97, 97]\<rparr>]
   = \<lparr>pages = [], currentPage = \<lparr>pageColumns = [\<lparr>lines = [[97, 97, 97, 97, 97, 97]]\<rparr>]\<rparr>,
      currentColumnLines = [], cursorY = 0, currentLine = [97, 97, 97, 97],
      currentLineWidth = 40\<rparr>"
  by (simp add: step_defs)

lemma exampleC_finish:
  "finishLayout (flowMetrics [60, 20] 10 10) 2
     \<lparr>pages = [], currentPage = \<lparr>pageColumns = [\<lparr>lines = [[97, 97, 97, 97, 97, 97]]\<rparr>]\<rparr>,
      currentColumnLines = [], cursorY = 0, currentLine = [97, 97, 97, 97],
      currentLineWidth = 40\<rparr>
   = [\<lparr>pageColumns = [\<lparr>lines = [[97, 97, 97, 97, 97, 97]]\<rparr>,
                       \<lparr>lines = [[97, 97, 97, 97]]\<rparr>]\<rparr>]"
  by (simp add: finish_defs)

lemma example_unequal_columns:
  "layoutText monoBrowser (textConfig [97, 97, 97, 97, 97, 97, 97, 97, 97, 97] 2)
     (flowMetrics [60, 20] 10 10)
   = [\<lparr>pageColumns = [\<lparr>lines = [[97, 97, 97, 97, 97, 97]]\<rparr>,
                       \<lparr>lines = [[97, 97, 97, 97]]\<rparr>]\<rparr>]"
  by (simp add: layout_defs exampleC_tokens exampleC_flow exampleC_finish del: foldl_Cons)

text \<open>
  The text \<^verbatim>\<open>a\<close>, a line feed and \<^verbatim>\<open>bbbb\<close> in the same two columns.
\<close>

lemma exampleD_tokens:
  "tokenize [97, 10, 98, 98, 98, 98]
   = [\<lparr>ttype = Word, tvalue = [97]\<rparr>, \<lparr>ttype = Newline, tvalue = [10]\<rparr>,
      \<lparr>ttype = Word, tvalue = [98, 98, 98, 98]\<rparr>]"
  by (simp add: tokenize_def isSpace_def)

lemma exampleD_flow:
  "foldl (processToken monoWidth (flowMetrics [60, 20] 10 10) 2) initialState
     [\<lparr>ttype = Word, tvalue = [97]\<rparr>, \<lparr>ttype = Newline, tvalue = [10]\<rparr>,
      \<lparr>ttype = Word, tvalue = [98, 98, 98, 98]\<rparr>]
   = \<lparr>pages = [], currentPage = \<lparr>pageColumns = [\<lparr>lines = [[97]]\<rparr>]\<rparr>,
      currentColumnLines = [], cursorY = 0, currentLine = [98, 98, 98, 98],
      currentLineWidth = 40\<rparr>"
  by (simp add: step_defs)

lemma exampleD_finish:
  "finishLayout (flowMetrics [60, 20] 10 10) 2
     \<lparr>pages = [], currentPage = \<lparr>pageColumns = [\<lparr>lines = [[97]]\<rparr>]\<rparr>,
      currentColumnLines = [], cursorY = 0, currentLine = [98, 98, 98, 98],
      currentLineWidth = 40\<rparr>
   = [\<lparr>pageColumns = [\<lparr>lines = [[97]]\<rparr>, \<lparr>lines = [[98, 98, 98, 98]]\<rparr>]\<rparr>]"
  by (simp add: finish_defs)

lemma example_line_break:
  "layoutText monoBrowser (textConfig [97, 10, 98, 98, 98, 98] 2) (flowMetrics [60, 20] 10 10)
   = [\<lparr>pageColumns = [\<lparr>lines = [[97]]\<rparr>, \<lparr>lines = [[98, 98, 98, 98]]\<rparr>]\<rparr>]"
  by (simp add: layout_defs exampleD_tokens exampleD_flow exampleD_finish del: foldl_Cons)

text \<open>
  C7 (the code at the failing input). After the first segment fills column 0, the second
  iteration of \<^verbatim>\<open>splitLongWord\<close> reads the width of column 0 (60), then
  \<^verbatim>\<open>ensureColumnSpaceForNextLine\<close> moves the flow to column 1 (width 20), and the search
  still compares with 60: the rest \<^verbatim>\<open>aaaa\<close>, 40 pixels wide, goes whole into the column of
  20 pixels, although single characters fit there. The token loop does the same: the
  word \<^verbatim>\<open>bbbb\<close> that follows a line feed is compared with the 60 pixels of the full
  column 0 and then starts the first line of column 1.
\<close>

theorem layoutText_stale_column_width:
  "getColumnWidth [60, 20] \<lparr>pages = [], currentPage = \<lparr>pageColumns = []\<rparr>,
      currentColumnLines = [[97, 97, 97, 97, 97, 97]], cursorY = 10, currentLine = [],
      currentLineWidth = 0\<rparr> = 60
   \<and> getColumnWidth [60, 20] (ensureColumnSpaceForNextLine (flowMetrics [60, 20] 10 10) 2
      \<lparr>pages = [], currentPage = \<lparr>pageColumns = []\<rparr>,
      currentColumnLines = [[97, 97, 97, 97, 97, 97]], cursorY = 10, currentLine = [],
      currentLineWidth = 0\<rparr>) = 20
   \<and> splitBody monoWidth (flowMetrics [60, 20] 10 10) 2
      (\<lparr>pages = [], currentPage = \<lparr>pageColumns = []\<rparr>,
      currentColumnLines = [[97, 97, 97, 97, 97, 97]], cursorY = 10, currentLine = [],
      currentLineWidth = 0\<rparr>, [97, 97, 97, 97])
     = (\<lparr>pages = [], currentPage = \<lparr>pageColumns = [\<lparr>lines = [[97, 97, 97, 97, 97, 97]]\<rparr>]\<rparr>,
      currentColumnLines = [], cursorY = 0, currentLine = [97, 97, 97, 97],
      currentLineWidth = 40\<rparr>, [])
   \<and> layoutText monoBrowser (textConfig [97, 97, 97, 97, 97, 97, 97, 97, 97, 97] 2)
       (flowMetrics [60, 20] 10 10)
     = [\<lparr>pageColumns = [\<lparr>lines = [[97, 97, 97, 97, 97, 97]]\<rparr>,
                         \<lparr>lines = [[97, 97, 97, 97]]\<rparr>]\<rparr>]
   \<and> \<not> monoWidth [97, 97, 97, 97] \<le> [60, 20] ! 1 + 0.1
   \<and> monoWidth [97] \<le> [60, 20] ! 1 + 0.1
   \<and> layoutText monoBrowser (textConfig [97, 10, 98, 98, 98, 98] 2)
       (flowMetrics [60, 20] 10 10)
     = [\<lparr>pageColumns = [\<lparr>lines = [[97]]\<rparr>, \<lparr>lines = [[98, 98, 98, 98]]\<rparr>]\<rparr>]
   \<and> \<not> monoWidth [98, 98, 98, 98] \<le> [60, 20] ! 1 + 0.1"
  by (simp add: example_unequal_columns example_line_break) (simp add: step_defs)

section \<open>Termination\<close>

lemma searchLoop_while:
  "map_option (\<lambda>(low, high, best). best)
     (while_option (\<lambda>(low, high, best). low \<le> high) (searchBody mw cw r) (low, high, best))
   = Some (searchLoop mw cw r (low, high, best))"
proof (induction mw cw r "(low, high, best)" arbitrary: low high best rule: searchLoop.induct)
  case (1 mw cw r low high best)
  show ?case
  proof (cases "low \<le> high")
    case False
    then show ?thesis
      by (subst while_option_unfold) (simp add: searchLoop.simps)
  next
    case True
    obtain l h b where body: "searchBody mw cw r (low, high, best) = (l, h, b)"
      by (cases "searchBody mw cw r (low, high, best)")
    from "1.hyps"[OF True body] True body show ?thesis
      by (subst while_option_unfold) (simp add: searchLoop.simps[of mw cw r low high best])
  qed
qed

lemma splitLongWord_while:
  "map_option fst
     (while_option (\<lambda>(st, remaining). 0 < length remaining) (splitBody mw m cc) (st, r))
   = Some (splitLongWord mw m cc st r)"
proof (induction "length r" arbitrary: st r rule: less_induct)
  case less
  show ?case
  proof (cases "r = []")
    case True
    then show ?thesis
      by (subst while_option_unfold) (simp add: splitLongWord.simps)
  next
    case False
    obtain st' r' where body: "splitBody mw m cc (st, r) = (st', r')"
      by (cases "splitBody mw m cc (st, r)")
    have "length r' < length r"
      using splitBody_shrinks[OF False, of mw m cc st] body by simp
    from less.hyps[OF this, of st'] False body show ?thesis
      by (subst while_option_unfold) (simp add: splitLongWord.simps[of mw m cc st r])
  qed
qed

lemma padColumns_while:
  "while_option (\<lambda>cols. real (length cols) < cc) (\<lambda>cols. cols @ [\<lparr>lines = []\<rparr>]) cols
   = Some (padColumns cc cols)"
proof (induction cc cols rule: padColumns.induct)
  case (1 cc cols)
  show ?case
  proof (cases "real (length cols) < cc")
    case True
    from "1.IH"[OF True] True show ?thesis
      by (subst while_option_unfold) (simp add: padColumns.simps[of cc cols])
  next
    case False
    then show ?thesis
      by (subst while_option_unfold) (simp add: padColumns.simps[of cc cols])
  qed
qed

text \<open>
  C9. The loops of \<^verbatim>\<open>layoutText\<close> exit, for every measuring function and every metrics
  (zero or negative widths included). Run as while loops that may fail to return, the
  binary search, the loop of \<^verbatim>\<open>splitLongWord\<close> and the padding loop return, with the
  results of the recursive functions above; \<^verbatim>\<open>splitLongWord\<close> takes at least one
  character in every iteration, so the remaining word shrinks; and the token loop runs
  its body once for each token.
\<close>

theorem layoutText_loops_terminate:
  "map_option (\<lambda>(low, high, best). best)
     (while_option (\<lambda>(low, high, best). low \<le> high)
        (searchBody measureWidth columnWidth remaining) (1, int (length remaining), 0))
     = Some (searchLoop measureWidth columnWidth remaining (1, int (length remaining), 0))
   \<and> map_option fst
       (while_option (\<lambda>(st, remaining). 0 < length remaining)
          (splitBody measureWidth metrics columnCount) (st, word))
     = Some (splitLongWord measureWidth metrics columnCount st word)
   \<and> while_option (\<lambda>cols. real (length cols) < columnCount) (\<lambda>cols. cols @ [\<lparr>lines = []\<rparr>])
       cols
     = Some (padColumns columnCount cols)
   \<and> 1 \<le> bestPrefix measureWidth columnWidth (c # cs)
   \<and> length (snd (splitBody measureWidth metrics columnCount (st, c # cs))) < length (c # cs)
   \<and> flowTokens measureWidth metrics columnCount (tokens @ [tok])
     = finishLayout metrics columnCount
         (processToken measureWidth metrics columnCount
            (foldl (processToken measureWidth metrics columnCount) initialState tokens) tok)"
  using searchLoop_while[of measureWidth columnWidth remaining]
    splitLongWord_while[of measureWidth metrics columnCount st word]
    padColumns_while[of columnCount cols]
    bestPrefix_bounds[of "c # cs" measureWidth columnWidth]
    splitBody_shrinks[of "c # cs" measureWidth metrics columnCount st]
  by (simp add: flowTokens_def)

section \<open>Custom column widths\<close>

lemma foldl_add_sum: "foldl (\<lambda>acc v. acc + v) a xs = a + sum_list (xs :: real list)"
  by (induction xs arbitrary: a) simp_all

lemma requestedSum_sum_list: "requestedSum cols ws = sum_list (requestedWidths cols ws)"
  by (simp add: requestedSum_def foldl_add_sum)

lemma sum_list_scaled: "sum_list (map (\<lambda>v. mmToPx (v * k)) xs) = mmToPx (sum_list xs * k)"
  by (induction xs) (simp_all add: mmToPx_def algebra_simps add_divide_distrib)

lemma mmToPx_scale: "mmToPx (v * (a / s)) = v * (mmToPx a / s)"
  by (simp add: mmToPx_def)

lemma available_no_clamp:
  assumes "1 \<le> PAGE_WIDTH_MM - mLeft margins - mRight margins - gapMm * max (cols - 1) 0"
      and "0 \<le> gapMm"
  shows "mmToPx (availableWidthMm cols gapMm margins) = availableWidthPx cols gapMm margins"
proof -
  define W where "W = PAGE_WIDTH_MM - mLeft margins - mRight margins"
  define G where "G = gapMm * max (cols - 1) 0"
  have k: "mmToPx x = x * (96 / 25.4)" for x by (simp add: mmToPx_def)
  have G0: "0 \<le> G" using assms(2) by (simp add: G_def)
  have WG: "1 \<le> W - G" using assms(1) by (simp add: W_def G_def)
  have W1: "1 \<le> W" using WG G0 by simp
  have cw: "contentWidthPx margins = W * (96 / 25.4)"
  proof -
    have "mmToPx PAGE_WIDTH_MM - mmToPx (mLeft margins) - mmToPx (mRight margins) = W * (96/25.4)"
      by (simp add: k W_def algebra_simps)
    moreover have "1 \<le> W * (96 / 25.4)" using W1 by simp
    ultimately show ?thesis by (simp add: contentWidthPx_def)
  qed
  have "W * (96 / 25.4) - mmToPx gapMm * max (cols - 1) 0 = (W - G) * (96 / 25.4)"
    by (simp add: k G_def algebra_simps diff_divide_distrib)
  then have "availableWidthPx cols gapMm margins = max ((W - G) * (96 / 25.4)) 1"
    by (simp only: availableWidthPx_def cw)
  also have "\<dots> = (W - G) * (96 / 25.4)" using WG by simp
  finally have px: "availableWidthPx cols gapMm margins = (W - G) * (96 / 25.4)" .
  have "availableWidthMm cols gapMm margins = W - G"
    using WG by (simp add: availableWidthMm_def W_def G_def)
  then show ?thesis by (simp add: px k)
qed

lemma custom_widths:
  "0 < requestedSum cols ws \<Longrightarrow>
   columnWidthsPx (computeMetrics cols Custom ws gapMm margins fs sp)
     = map (\<lambda>v. mmToPx (v * (availableWidthMm cols gapMm margins / requestedSum cols ws)))
         (requestedWidths cols ws)"
  by (simp add: computeMetrics_def resolveWidths_def Let_def)

lemma custom_scale:
  "0 < requestedSum cols ws \<Longrightarrow>
   customScale (computeMetrics cols Custom ws gapMm margins fs sp)
     = availableWidthMm cols gapMm margins / requestedSum cols ws"
  by (simp add: computeMetrics_def resolveWidths_def Let_def)

lemma custom_fallback:
  "requestedSum cols ws \<le> 0 \<Longrightarrow>
   columnWidthsPx (computeMetrics cols Custom ws gapMm margins fs sp)
     = replicate (nat \<lfloor>max cols 1\<rfloor>) (availableWidthPx cols gapMm margins / max cols 1)
   \<and> customScale (computeMetrics cols Custom ws gapMm margins fs sp) = 1"
  by (simp add: computeMetrics_def resolveWidths_def Let_def)

lemma custom_examples: "requestedSum 2 [10, 30] = 40"
  "requestedWidths 2 [10, 30] = [10, 30]"
  "availableWidthMm 2 2 tenMargins = 188"
  "availableWidthPx 2 2 tenMargins = mmToPx 188"
  "availableWidthMm 2 200 tenMargins = 1"
  "availableWidthPx 2 200 tenMargins = 1"
  by (simp_all add: requestedSum_def requestedWidths_def availableWidthMm_def availableWidthPx_def
      contentWidthPx_def tenMargins_def PAGE_WIDTH_MM_def mmToPx_def)

text \<open>
  C5 (as amended). In custom mode, when the clamped requested widths sum to \<open>S > 0\<close>,
  every resolved width is the requested width times \<open>A / S\<close>, converted to pixels, where
  \<open>A\<close> is \<^verbatim>\<open>availableWidthMm\<close> (in millimetres, not below 1), and the resolved widths sum
  to \<open>A\<close> converted to pixels; the reported scale is \<open>A / S\<close>. When no clamp engages (the
  gap is not negative and at least 1 millimetre is left for the columns) this is the
  pixel width \<^verbatim>\<open>availableWidthPx\<close>: every resolved width is the requested width times
  \<^verbatim>\<open>availableWidthPx / S\<close> and the widths sum to \<^verbatim>\<open>availableWidthPx\<close>.
\<close>

theorem computeMetrics_custom_scale:
  assumes "0 < requestedSum cols widthsMm"
  shows "columnWidthsPx (computeMetrics cols Custom widthsMm gapMm margins fontSizePt spacing)
           = map (\<lambda>v. mmToPx (v * (availableWidthMm cols gapMm margins
                                      / requestedSum cols widthsMm)))
               (requestedWidths cols widthsMm)
       \<and> sum_list (columnWidthsPx
             (computeMetrics cols Custom widthsMm gapMm margins fontSizePt spacing))
           = mmToPx (availableWidthMm cols gapMm margins)
       \<and> customScale (computeMetrics cols Custom widthsMm gapMm margins fontSizePt spacing)
           = availableWidthMm cols gapMm margins / requestedSum cols widthsMm
       \<and> (1 \<le> PAGE_WIDTH_MM - mLeft margins - mRight margins
                  - gapMm * max (cols - 1) 0 \<and> 0 \<le> gapMm
            \<longrightarrow> columnWidthsPx
                  (computeMetrics cols Custom widthsMm gapMm margins fontSizePt spacing)
                = map (\<lambda>v. v * (availableWidthPx cols gapMm margins
                                  / requestedSum cols widthsMm))
                    (requestedWidths cols widthsMm)
              \<and> sum_list (columnWidthsPx
                    (computeMetrics cols Custom widthsMm gapMm margins fontSizePt spacing))
                = availableWidthPx cols gapMm margins)"
proof -
  let ?m = "computeMetrics cols Custom widthsMm gapMm margins fontSizePt spacing"
  let ?A = "availableWidthMm cols gapMm margins"
  let ?S = "requestedSum cols widthsMm"
  have w: "columnWidthsPx ?m = map (\<lambda>v. mmToPx (v * (?A / ?S))) (requestedWidths cols widthsMm)"
    by (rule custom_widths[OF assms])
  have "sum_list (columnWidthsPx ?m) = mmToPx (sum_list (requestedWidths cols widthsMm) * (?A / ?S))"
    unfolding w by (rule sum_list_scaled)
  also have "\<dots> = mmToPx ?A"
    using assms by (simp add: requestedSum_sum_list)
  finally have s: "sum_list (columnWidthsPx ?m) = mmToPx ?A" .
  have px: "columnWidthsPx ?m
        = map (\<lambda>v. v * (availableWidthPx cols gapMm margins / ?S)) (requestedWidths cols widthsMm)
      \<and> sum_list (columnWidthsPx ?m) = availableWidthPx cols gapMm margins"
    if "1 \<le> PAGE_WIDTH_MM - mLeft margins - mRight margins
                  - gapMm * max (cols - 1) 0" "0 \<le> gapMm"
  proof -
    have e: "mmToPx ?A = availableWidthPx cols gapMm margins"
      by (rule available_no_clamp[OF that])
    have "map (\<lambda>v. mmToPx (v * (?A / ?S))) (requestedWidths cols widthsMm)
        = map (\<lambda>v. v * (mmToPx ?A / ?S)) (requestedWidths cols widthsMm)"
      by (simp only: mmToPx_scale)
    with w s show ?thesis by (simp only: e)
  qed
  show ?thesis
    using w s custom_scale[OF assms] px by blast
qed

theorem computeMetrics_custom_scale_witness:
  "0 < requestedSum 2 [10, 30]
   \<and> 1 \<le> PAGE_WIDTH_MM - mLeft tenMargins - mRight tenMargins - 2 * max (2 - 1) 0
   \<and> columnWidthsPx (computeMetrics 2 Custom [10, 30] 2 tenMargins 12 1)
       = [mmToPx 47, mmToPx 141]
   \<and> sum_list (columnWidthsPx (computeMetrics 2 Custom [10, 30] 2 tenMargins 12 1))
       = availableWidthPx 2 2 tenMargins
   \<and> availableWidthPx 2 2 tenMargins = mmToPx 188
   \<and> customScale (computeMetrics 2 Custom [10, 30] 2 tenMargins 12 1) = 188 / 40"
proof -
  have pos: "0 < requestedSum 2 [10, 30]" by (simp add: custom_examples)
  have room: "1 \<le> PAGE_WIDTH_MM - mLeft tenMargins - mRight tenMargins
      - 2 * max (2 - 1) 0"
    by (simp add: PAGE_WIDTH_MM_def tenMargins_def)
  have gap: "(0 :: real) \<le> 2" by simp
  have m: "mmToPx (10 * (188 / 40)) = mmToPx 47" "mmToPx (30 * (188 / 40)) = mmToPx 141"
    by (simp_all add: mmToPx_def)
  note t = computeMetrics_custom_scale[OF pos, of 2 tenMargins 12 1]
  have w: "columnWidthsPx (computeMetrics 2 Custom [10, 30] 2 tenMargins 12 1)
      = map (\<lambda>v. mmToPx (v * (availableWidthMm 2 2 tenMargins / requestedSum 2 [10, 30])))
          (requestedWidths 2 [10, 30])"
    using t by blast
  have s: "sum_list (columnWidthsPx (computeMetrics 2 Custom [10, 30] 2 tenMargins 12 1))
      = availableWidthPx 2 2 tenMargins"
    using t room gap by blast
  have c: "customScale (computeMetrics 2 Custom [10, 30] 2 tenMargins 12 1)
      = availableWidthMm 2 2 tenMargins / requestedSum 2 [10, 30]"
    using t by blast
  have w': "columnWidthsPx (computeMetrics 2 Custom [10, 30] 2 tenMargins 12 1)
      = [mmToPx 47, mmToPx 141]"
    unfolding w by (simp add: custom_examples m)
  have c': "customScale (computeMetrics 2 Custom [10, 30] 2 tenMargins 12 1) = 188 / 40"
    unfolding c by (simp add: custom_examples)
  show ?thesis
    using pos room w' s c' custom_examples(4) by blast
qed

text \<open>
  C5 as stated fails where the clamps engage: with two columns, a gap of 200 millimetres
  and margins of 10, \<^verbatim>\<open>availableWidthPx\<close> is 1 pixel while \<^verbatim>\<open>availableWidthMm\<close> is 1
  millimetre, so the custom widths sum to 480/127 pixels, not to 1.
\<close>

theorem computeMetrics_custom_scale_counterexample:
  "0 < requestedSum 2 [10, 30]
   \<and> availableWidthPx 2 200 tenMargins = 1
   \<and> columnWidthsPx (computeMetrics 2 Custom [10, 30] 200 tenMargins 12 1)
       = [120 / 127, 360 / 127]
   \<and> sum_list (columnWidthsPx (computeMetrics 2 Custom [10, 30] 200 tenMargins 12 1))
       \<noteq> availableWidthPx 2 200 tenMargins
   \<and> hd (columnWidthsPx (computeMetrics 2 Custom [10, 30] 200 tenMargins 12 1))
       \<noteq> hd (requestedWidths 2 [10, 30])
            * (availableWidthPx 2 200 tenMargins / requestedSum 2 [10, 30])"
  by (simp add: custom_widths custom_examples) (simp add: mmToPx_def)

text \<open>
  C6 (as amended). In custom mode the requested widths are the first \<^verbatim>\<open>columnCount\<close>
  entries of the supplied list (\<^verbatim>\<open>slice\<close> truncates a fractional count), negative entries
  raised to 0; entries that are missing are not added. When the requested widths sum to 0
  or less, the resolved list has \<^verbatim>\<open>columnCount\<close> entries (the count truncated to a whole
  number), each \<^verbatim>\<open>availableWidthPx / columnCount\<close>, and the scale is 1; otherwise it has
  as many entries as were requested, the smaller of the truncated \<^verbatim>\<open>columnCount\<close> and the
  length of the supplied list. For a whole number of columns the truncated count is
  \<^verbatim>\<open>columnCount\<close> itself.
\<close>

theorem computeMetrics_custom_requested:
  "length (requestedWidths cols widthsMm) = min (length widthsMm) (nat \<lfloor>max cols 1\<rfloor>)
   \<and> (\<forall>i < min (length widthsMm) (nat \<lfloor>max cols 1\<rfloor>).
         requestedWidths cols widthsMm ! i = max (widthsMm ! i) 0)
   \<and> length (columnWidthsPx (computeMetrics cols Custom widthsMm gapMm margins fontSizePt spacing))
       = (if requestedSum cols widthsMm \<le> 0 then nat \<lfloor>max cols 1\<rfloor>
          else min (length widthsMm) (nat \<lfloor>max cols 1\<rfloor>))
   \<and> (requestedSum cols widthsMm \<le> 0 \<longrightarrow>
         columnWidthsPx (computeMetrics cols Custom widthsMm gapMm margins fontSizePt spacing)
           = replicate (nat \<lfloor>max cols 1\<rfloor>) (availableWidthPx cols gapMm margins / max cols 1)
         \<and> customScale (computeMetrics cols Custom widthsMm gapMm margins fontSizePt spacing) = 1)
   \<and> (cols \<in> \<int> \<and> requestedSum cols widthsMm \<le> 0 \<longrightarrow>
         real (length (columnWidthsPx
           (computeMetrics cols Custom widthsMm gapMm margins fontSizePt spacing))) = max cols 1)"
proof -
  have len: "length (requestedWidths cols widthsMm) = min (length widthsMm) (nat \<lfloor>max cols 1\<rfloor>)"
    by (simp add: requestedWidths_def)
  have nth: "requestedWidths cols widthsMm ! i = max (widthsMm ! i) 0"
    if "i < min (length widthsMm) (nat \<lfloor>max cols 1\<rfloor>)" for i
    using that by (simp add: requestedWidths_def)
  have l: "length (columnWidthsPx (computeMetrics cols Custom widthsMm gapMm margins fontSizePt spacing))
       = (if requestedSum cols widthsMm \<le> 0 then nat \<lfloor>max cols 1\<rfloor>
          else min (length widthsMm) (nat \<lfloor>max cols 1\<rfloor>))"
  proof (cases "requestedSum cols widthsMm \<le> 0")
    case True
    then show ?thesis using custom_fallback[OF True, of gapMm margins fontSizePt spacing] by simp
  next
    case False
    then have "0 < requestedSum cols widthsMm" by simp
    from custom_widths[OF this, of gapMm margins fontSizePt spacing] False len show ?thesis by simp
  qed
  have whole: "real (nat \<lfloor>max cols 1\<rfloor>) = max cols 1" if "cols \<in> \<int>"
  proof -
    have "max cols 1 \<in> \<int>" using that by (simp add: max_def)
    then show ?thesis by (auto elim!: Ints_cases)
  qed
  have w: "real (length (columnWidthsPx
      (computeMetrics cols Custom widthsMm gapMm margins fontSizePt spacing))) = max cols 1"
    if "cols \<in> \<int>" "requestedSum cols widthsMm \<le> 0"
    using l that(2) whole[OF that(1)] by simp
  show ?thesis
    using len nth l custom_fallback[of cols widthsMm gapMm margins fontSizePt spacing] w by blast
qed

theorem computeMetrics_custom_requested_witness:
  "(3 :: real) \<in> \<int>
   \<and> requestedSum 3 [- 5, 0] \<le> 0
   \<and> requestedWidths 3 [- 5, 0] = [0, 0]
   \<and> columnWidthsPx (computeMetrics 3 Custom [- 5, 0] 2 tenMargins 12 1)
       = [availableWidthPx 3 2 tenMargins / 3, availableWidthPx 3 2 tenMargins / 3,
          availableWidthPx 3 2 tenMargins / 3]
   \<and> real (length (columnWidthsPx (computeMetrics 3 Custom [- 5, 0] 2 tenMargins 12 1))) = 3
   \<and> customScale (computeMetrics 3 Custom [- 5, 0] 2 tenMargins 12 1) = 1"
proof -
  have s: "requestedSum 3 [- 5, 0] \<le> 0" "requestedWidths 3 [- 5, 0] = [0, 0]"
    by (simp_all add: requestedSum_def requestedWidths_def)
  have z: "(3 :: real) \<in> \<int>" by simp
  note t = computeMetrics_custom_requested[of 3 "[- 5, 0]" 2 tenMargins 12 1]
  have w: "columnWidthsPx (computeMetrics 3 Custom [- 5, 0] 2 tenMargins 12 1)
      = replicate (nat \<lfloor>max (3 :: real) 1\<rfloor>) (availableWidthPx 3 2 tenMargins / max 3 1)"
    and c: "customScale (computeMetrics 3 Custom [- 5, 0] 2 tenMargins 12 1) = 1"
    using t s(1) by blast+
  have n: "real (length (columnWidthsPx (computeMetrics 3 Custom [- 5, 0] 2 tenMargins 12 1)))
      = max 3 1"
    using t s(1) z by blast
  have w': "columnWidthsPx (computeMetrics 3 Custom [- 5, 0] 2 tenMargins 12 1)
       = [availableWidthPx 3 2 tenMargins / 3, availableWidthPx 3 2 tenMargins / 3,
          availableWidthPx 3 2 tenMargins / 3]"
    unfolding w by (simp add: numeral_3_eq_3)
  have n': "real (length (columnWidthsPx (computeMetrics 3 Custom [- 5, 0] 2 tenMargins 12 1))) = 3"
    using n by simp
  show ?thesis using z s w' n' c by blast
qed

text \<open>
  C6 as stated fails when fewer widths are supplied than there are columns: for three
  columns and the widths 10 and 20 the resolved list has two entries. It also fails for a
  fractional count, which the caller's clamp lets through: for 2.5 columns the resolved
  list has two entries, of three widths supplied and also in the fallback.
\<close>

theorem computeMetrics_custom_requested_counterexample:
  "0 < requestedSum 3 [10, 20]
   \<and> length (columnWidthsPx (computeMetrics 3 Custom [10, 20] 2 tenMargins 12 1)) = 2
   \<and> real (length (columnWidthsPx (computeMetrics 3 Custom [10, 20] 2 tenMargins 12 1)))
       \<noteq> max 3 1
   \<and> 0 < requestedSum (5 / 2) [10, 20, 30]
   \<and> length (columnWidthsPx (computeMetrics (5 / 2) Custom [10, 20, 30] 2 tenMargins 12 1)) = 2
   \<and> real (length (columnWidthsPx
         (computeMetrics (5 / 2) Custom [10, 20, 30] 2 tenMargins 12 1))) \<noteq> max (5 / 2) 1
   \<and> requestedSum (5 / 2) [] \<le> 0
   \<and> length (columnWidthsPx (computeMetrics (5 / 2) Custom [] 2 tenMargins 12 1)) = 2"
proof -
  have f: "nat \<lfloor>max (3 :: real) 1\<rfloor> = 3" "nat \<lfloor>max (5 / 2 :: real) 1\<rfloor> = 2" by simp_all
  show ?thesis
    by (simp add: computeMetrics_def resolveWidths_def requestedSum_def requestedWidths_def
        Let_def f)
qed

end
